theory Spec2Isabelle
  imports Complex_Main
begin

section \<open>Data model\<close>

text \<open>
  Coordinates are JavaScript numbers in the source. They are modelled as reals: rounding
  of IEEE doubles is not represented, and neither are NaN and the infinities.
  Timestamps (\<^verbatim>\<open>Date.now()\<close>, integer milliseconds) are integers; one
  timestamp is read per processed frame.
\<close>

record point =
  x :: real
  y :: real

record landmark = point +
  z :: real

text \<open>The anchor \<^verbatim>\<open>{ x, y, startX, startY }\<close> kept in \<^verbatim>\<open>lastHandPosition\<close>.\<close>

record hand_position = point +
  startX :: real
  startY :: real

type_synonym hand = "landmark list"

datatype failure =
    TypeError   \<comment> \<open>a property of \<^verbatim>\<open>undefined\<close> is read (landmark index out of range)\<close>
  | NaNValue    \<comment> \<open>the source computes 0/0 here and carries on with NaN\<close>

datatype pose = Fist | Point | Palm | Victory | Unknown

datatype interaction_state = Idle | Tracking | Rotating | Switching | Pinching | Locked

datatype direction = LEFT | RIGHT

datatype event =
    Swipe direction
  | Zoom real
  | Rotate real real
  | Reset
  | Lock
  | Unlock

text \<open>Reading \<^verbatim>\<open>landmarks[i]\<close> and then a coordinate of it.\<close>

definition lm_at :: "hand \<Rightarrow> nat \<Rightarrow> failure + landmark" where
  "lm_at landmarks i = (if i < length landmarks then Inr (landmarks ! i) else Inl TypeError)"

fun mapE :: "('a \<Rightarrow> failure + 'b) \<Rightarrow> 'a list \<Rightarrow> failure + 'b list" where
  "mapE f [] = Inr []"
| "mapE f (a # as) =
     (case f a of
        Inl e \<Rightarrow> Inl e
      | Inr b \<Rightarrow> (case mapE f as of Inl e \<Rightarrow> Inl e | Inr bs \<Rightarrow> Inr (b # bs)))"

section \<open>Pose classifier\<close>

definition fingerTips :: "nat list" where
  "fingerTips = [4, 8, 12, 16, 20]"

definition fingerPips :: "nat list" where
  "fingerPips = [3, 6, 10, 14, 18]"

definition tolerance :: real where
  "tolerance = 0.02"

text \<open>\<^verbatim>\<open>getFingerStates\<close>: [thumb, index, middle, ring, pinky].\<close>

definition fingerExtended :: "hand \<Rightarrow> nat \<times> nat \<Rightarrow> failure + bool" where
  "fingerExtended landmarks = (\<lambda>(tipIdx, pipIdx).
     (case lm_at landmarks tipIdx of
        Inl e \<Rightarrow> Inl e
      | Inr tip \<Rightarrow>
          (case lm_at landmarks pipIdx of
             Inl e \<Rightarrow> Inl e
           | Inr pip \<Rightarrow> Inr (y tip < y pip + tolerance))))"

definition getFingerStates :: "hand \<Rightarrow> failure + bool list" where
  "getFingerStates landmarks = mapE (fingerExtended landmarks) (zip fingerTips fingerPips)"

text \<open>
  The body of \<^verbatim>\<open>detectGesture\<close> after the finger states are known.
  \<^verbatim>\<open>fingerStates[i]\<close> of a five-element array; a missing entry is
  \<^verbatim>\<open>undefined\<close>, which is falsy.
\<close>

definition fs_at :: "bool list \<Rightarrow> nat \<Rightarrow> bool" where
  "fs_at fingerStates i = (i < length fingerStates \<and> fingerStates ! i)"

definition classifyStates :: "bool list \<Rightarrow> pose" where
  "classifyStates fingerStates =
     (let extendedCount = length (filter (\<lambda>s. s) fingerStates) in
      if extendedCount \<ge> 4 then Palm
      else if fs_at fingerStates 1 \<and> fs_at fingerStates 2
              \<and> \<not> fs_at fingerStates 3 \<and> \<not> fs_at fingerStates 4 then Victory
      else if extendedCount = 0 \<or> (extendedCount = 1 \<and> fs_at fingerStates 0) then Fist
      else if fs_at fingerStates 1 then Point
      else if extendedCount = 1 then Point
      else Unknown)"

definition detectGesture :: "hand \<Rightarrow> failure + pose" where
  "detectGesture landmarks =
     (case getFingerStates landmarks of
        Inl e \<Rightarrow> Inl e
      | Inr fingerStates \<Rightarrow> Inr (classifyStates fingerStates))"

text \<open>The classification as the specification words it (priority list of section 4.2).\<close>

definition extended_count :: "bool \<Rightarrow> bool \<Rightarrow> bool \<Rightarrow> bool \<Rightarrow> bool \<Rightarrow> nat" where
  "extended_count thumb index middle ring pinky =
     of_bool thumb + of_bool index + of_bool middle + of_bool ring + of_bool pinky"

definition spec_classify :: "bool \<Rightarrow> bool \<Rightarrow> bool \<Rightarrow> bool \<Rightarrow> bool \<Rightarrow> pose" where
  "spec_classify thumb index middle ring pinky =
     (let E = extended_count thumb index middle ring pinky in
      if E \<ge> 4 then Palm
      else if index \<and> middle \<and> \<not> ring \<and> \<not> pinky then Victory
      else if E = 0 \<or> (E = 1 \<and> thumb) then Fist
      else if index then Point
      else Unknown)"

text \<open>The same list with the source's last fallback: a single extended digit is a Point.\<close>

definition amended_classify :: "bool \<Rightarrow> bool \<Rightarrow> bool \<Rightarrow> bool \<Rightarrow> bool \<Rightarrow> pose" where
  "amended_classify thumb index middle ring pinky =
     (let E = extended_count thumb index middle ring pinky in
      if E \<ge> 4 then Palm
      else if index \<and> middle \<and> \<not> ring \<and> \<not> pinky then Victory
      else if E = 0 \<or> (E = 1 \<and> thumb) then Fist
      else if index then Point
      else if E = 1 then Point
      else Unknown)"

section \<open>Gesture engine\<close>

text \<open>
  The fields of \<^verbatim>\<open>GestureEngine\<close> that the frame processing reads or writes.
  \<^verbatim>\<open>null\<close> and \<^verbatim>\<open>undefined\<close> are \<open>None\<close>. The constructor leaves
  \<^verbatim>\<open>swipeCooldownTimestamp\<close>, \<^verbatim>\<open>palmStartTime\<close>, \<^verbatim>\<open>switchCooldown\<close> and
  \<^verbatim>\<open>lastMoveTime\<close> undefined. The callback registry is not modelled: \<^verbatim>\<open>emit\<close>
  is recorded as the list of events a call produces, in order.
\<close>

record engine =
  state :: interaction_state
  gestureStartTime :: "int option"
  lastHandPosition :: "hand_position option"
  pinchStartDistance :: "real option"
  swipeCooldownTimestamp :: "int option"
  palmStartTime :: "int option"
  switchCooldown :: "int option"
  lastMoveTime :: "int option"

definition GestureEngine :: engine where
  "GestureEngine = \<lparr> state = Idle, gestureStartTime = None, lastHandPosition = None,
     pinchStartDistance = None, swipeCooldownTimestamp = None, palmStartTime = None,
     switchCooldown = None, lastMoveTime = None \<rparr>"

text \<open>One frame as \<^verbatim>\<open>processFrame\<close> receives it; handedness entries by their label.\<close>

record results =
  multiHandLandmarks :: "hand list option"
  multiHandedness :: "string list option"

text \<open>JavaScript truthiness of a timestamp field: set and not 0.\<close>

definition truthy :: "int option \<Rightarrow> bool" where
  "truthy t = (case t of None \<Rightarrow> False | Some v \<Rightarrow> v \<noteq> 0)"

text \<open>A timestamp field in a subtraction; \<^verbatim>\<open>null\<close> counts as 0.\<close>

definition numeric :: "int option \<Rightarrow> int" where
  "numeric t = (case t of None \<Rightarrow> 0 | Some v \<Rightarrow> v)"

definition hypot :: "real \<Rightarrow> real \<Rightarrow> real" where
  "hypot a b = sqrt (a\<^sup>2 + b\<^sup>2)"

definition resetState :: "engine \<Rightarrow> engine \<times> event list" where
  "resetState e =
     (e\<lparr> state := Idle, lastHandPosition := None, pinchStartDistance := None,
         gestureStartTime := None \<rparr>,
      if state e = Locked then [Unlock] else [])"

text \<open>
  \<^verbatim>\<open>getHandCenter\<close>. On an empty landmark list the source divides 0 by 0 and goes on
  with NaN coordinates; the reals have no such value, so the model stops there.
\<close>

definition getHandCenter :: "hand \<Rightarrow> failure + point" where
  "getHandCenter landmarks =
     (if landmarks = [] then Inl NaNValue
      else Inr \<lparr> x = sum_list (map x landmarks) / real (length landmarks),
                 y = sum_list (map y landmarks) / real (length landmarks) \<rparr>)"

text \<open>
  The distance between the centres of \<^verbatim>\<open>hands[0]\<close> and \<^verbatim>\<open>hands[1]\<close>, computed
  the same way at the head of \<^verbatim>\<open>handleTwoHandGestures\<close> and in \<^verbatim>\<open>processFrame\<close>.
\<close>

definition hand_at :: "hand list \<Rightarrow> nat \<Rightarrow> failure + hand" where
  "hand_at hands i = (if i < length hands then Inr (hands ! i) else Inl TypeError)"

definition centerDistance :: "hand list \<Rightarrow> failure + real" where
  "centerDistance hands =
     (case hand_at hands 0 of Inl f \<Rightarrow> Inl f | Inr h1 \<Rightarrow>
      case getHandCenter h1 of Inl f \<Rightarrow> Inl f | Inr hand1Center \<Rightarrow>
      case hand_at hands 1 of Inl f \<Rightarrow> Inl f | Inr h2 \<Rightarrow>
      case getHandCenter h2 of Inl f \<Rightarrow> Inl f | Inr hand2Center \<Rightarrow>
        Inr (hypot (x hand1Center - x hand2Center) (y hand1Center - y hand2Center)))"

definition handleTwoHandGestures :: "hand list \<Rightarrow> engine \<Rightarrow> failure + engine \<times> event list" where
  "handleTwoHandGestures hands e =
     (case centerDistance hands of Inl f \<Rightarrow> Inl f | Inr distance \<Rightarrow>
      (case pinchStartDistance e of
         None \<Rightarrow> Inr (e\<lparr> pinchStartDistance := Some distance, state := Pinching \<rparr>, [])
       | Some prevDistance \<Rightarrow>
           (let emitted =
              (if prevDistance > 0 then
                 (let rawFactor = distance / prevDistance;
                      rawFactor = max 0.85 (min 1.15 rawFactor);
                      scaleFactor = 1 + (rawFactor - 1) * 1.5
                  in if \<bar>scaleFactor - 1.0\<bar> > 0.0005 then [Zoom scaleFactor] else [])
               else [])
            in Inr (e\<lparr> pinchStartDistance := Some distance \<rparr>, emitted))))"

text \<open>The global cooldown test at the head of \<^verbatim>\<open>handleSingleHandGestures\<close>.\<close>

definition cooldownActive :: "int \<Rightarrow> engine \<Rightarrow> bool" where
  "cooldownActive now e = (truthy (swipeCooldownTimestamp e) \<and> now < numeric (swipeCooldownTimestamp e))"

text \<open>Step 1 of \<^verbatim>\<open>handleSingleHandGestures\<close>, the branch taken on a palm.\<close>

definition palmHold :: "int \<Rightarrow> engine \<Rightarrow> engine \<times> event list" where
  "palmHold now e =
     (let e1 = (if \<not> truthy (palmStartTime e) then e\<lparr> palmStartTime := Some now \<rparr> else e)
      in if now - numeric (palmStartTime e1) > 1200 then
           (if state e1 \<noteq> Idle then
              (case resetState e1 of (e2, evs) \<Rightarrow> (e2\<lparr> palmStartTime := None \<rparr>, Reset # evs))
            else (e1, []))
         else (e1, []))"

text \<open>Step 2: the test on the index finger, and the body run when it holds.\<close>

definition horizontalPoint :: "hand \<Rightarrow> bool" where
  "horizontalPoint landmarks =
     (let mcp = landmarks ! 5; tip = landmarks ! 8;
          dx = x tip - x mcp; dy = y tip - y mcp
      in \<bar>dx\<bar> > \<bar>dy\<bar> * 0.8 \<and> \<bar>dx\<bar> > 0.04)"

definition switchModel :: "int \<Rightarrow> hand \<Rightarrow> engine \<Rightarrow> engine \<times> event list" where
  "switchModel now landmarks e =
     (let dx = x (landmarks ! 8) - x (landmarks ! 5)
      in if \<not> truthy (switchCooldown e) \<or> now - numeric (switchCooldown e) > 1200 then
           (e\<lparr> switchCooldown := Some now, state := Switching \<rparr>,
            [Swipe (if dx > 0 then RIGHT else LEFT)])
         else (e, []))"

text \<open>Step 3: the branch taken on a fist, or on a point that did not switch.\<close>

definition rotateStep :: "int \<Rightarrow> landmark \<Rightarrow> engine \<Rightarrow> engine \<times> event list" where
  "rotateStep now indexTip e =
     (case lastHandPosition e of
        None \<Rightarrow>
          (e\<lparr> lastHandPosition := Some \<lparr> x = x indexTip, y = y indexTip,
                                           startX = x indexTip, startY = y indexTip \<rparr>,
              gestureStartTime := Some now, state := Tracking \<rparr>, [])
      | Some lastPos \<Rightarrow>
          (let currentX = x indexTip; currentY = y indexTip;
               elapsed = now - numeric (gestureStartTime e);
               deltaX = currentX - x lastPos; deltaY = currentY - y lastPos;
               e1 = (if elapsed > 50 then e\<lparr> state := Rotating \<rparr> else e);
               evs = (if elapsed > 50 then [Rotate (deltaX * 2.5) (deltaY * 2.5)] else []);
               instantDist = hypot (currentX - x lastPos) (currentY - y lastPos);
               moved = lastPos\<lparr> x := currentX, y := currentY \<rparr>
           in if instantDist > 0.002 then
                (e1\<lparr> lastMoveTime := Some now, lastHandPosition := Some moved \<rparr>, evs)
              else if truthy (lastMoveTime e1) \<and> now - numeric (lastMoveTime e1) > 300 then
                (case resetState e1 of (e2, evs2) \<Rightarrow> (e2\<lparr> lastMoveTime := None \<rparr>, evs @ evs2))
              else (e1\<lparr> lastHandPosition := Some moved \<rparr>, evs)))"

text \<open>
  \<^verbatim>\<open>handleSingleHandGestures\<close>. The handedness argument is never read. Once
  \<^verbatim>\<open>detectGesture\<close> has returned, the hand has at least 21 landmarks, so the reads
  of \<^verbatim>\<open>landmarks[5]\<close> and \<^verbatim>\<open>landmarks[8]\<close> are in range.
\<close>

definition handleSingleHandGestures :: "int \<Rightarrow> hand \<Rightarrow> engine \<Rightarrow> failure + engine \<times> event list" where
  "handleSingleHandGestures now landmarks e =
     (if cooldownActive now e then Inr (e, [])
      else case detectGesture landmarks of Inl f \<Rightarrow> Inl f | Inr gesture \<Rightarrow>
        (let indexTip = landmarks ! 8 in
         if gesture = Palm then Inr (palmHold now e)
         else
           (let e1 = e\<lparr> palmStartTime := None \<rparr> in
            if gesture = Point \<and> horizontalPoint landmarks then Inr (switchModel now landmarks e1)
            else if gesture = Fist \<or> gesture = Point then Inr (rotateStep now indexTip e1)
            else Inr (resetState e1))))"

definition hasLabel :: "string list \<Rightarrow> string \<Rightarrow> string \<Rightarrow> bool" where
  "hasLabel labels a b = (a \<in> set labels \<or> b \<in> set labels)"

definition processFrame :: "int \<Rightarrow> results \<Rightarrow> engine \<Rightarrow> failure + engine \<times> event list" where
  "processFrame now res e =
     (case multiHandLandmarks res of
        None \<Rightarrow> Inr (resetState e)
      | Some hands \<Rightarrow>
          if length hands = 0 then Inr (resetState e)
          else
            (let handedness = (case multiHandedness res of None \<Rightarrow> [] | Some hs \<Rightarrow> hs) in
             if length hands \<ge> 2 then
               (case centerDistance hands of Inl f \<Rightarrow> Inl f | Inr centerDist \<Rightarrow>
                  if centerDist < 0.12 then handleSingleHandGestures now (hands ! 0) e
                  else
                    (let labels = handedness;
                         hasLeft = hasLabel labels ''Left'' ''left'';
                         hasRight = hasLabel labels ''Right'' ''right''
                     in if hasLeft \<and> hasRight then handleTwoHandGestures hands e
                        else handleSingleHandGestures now (hands ! 0) e))
             else handleSingleHandGestures now (hands ! 0) e))"

text \<open>
  A sequence of timed frames fed to one engine, with the events of all frames in order.
  An exception leaves \<^verbatim>\<open>processFrame\<close> before any field is written, and ends the run.
\<close>

fun run :: "engine \<Rightarrow> (int \<times> results) list \<Rightarrow> failure + engine \<times> event list" where
  "run e [] = Inr (e, [])"
| "run e ((now, res) # rest) =
     (case processFrame now res e of
        Inl f \<Rightarrow> Inl f
      | Inr (e1, evs) \<Rightarrow>
          (case run e1 rest of
             Inl f \<Rightarrow> Inl f
           | Inr (e2, evs2) \<Rightarrow> Inr (e2, evs @ evs2)))"

text \<open>
  The hand a frame hands to \<^verbatim>\<open>handleSingleHandGestures\<close>, if it does: the only hand, or
  the first of several when \<^verbatim>\<open>processFrame\<close> falls back to it. \<open>None\<close> for a frame
  without hands and for a frame that goes to \<^verbatim>\<open>handleTwoHandGestures\<close>.
\<close>

definition singleHandOf :: "results \<Rightarrow> hand option" where
  "singleHandOf res =
     (case multiHandLandmarks res of
        None \<Rightarrow> None
      | Some hands \<Rightarrow>
          if length hands = 0 then None
          else if length hands \<ge> 2 then
            (case centerDistance hands of
               Inl f \<Rightarrow> None
             | Inr centerDist \<Rightarrow>
                 if centerDist < 0.12 then Some (hands ! 0)
                 else if hasLabel (case multiHandedness res of None \<Rightarrow> [] | Some hs \<Rightarrow> hs) ''Left'' ''left''
                       \<and> hasLabel (case multiHandedness res of None \<Rightarrow> [] | Some hs \<Rightarrow> hs) ''Right'' ''right''
                 then None
                 else Some (hands ! 0))
          else Some (hands ! 0))"

text \<open>The pose classified on a frame: that of the hand processed by the single-hand branch.\<close>

definition framePose :: "results \<Rightarrow> pose option" where
  "framePose res =
     (case singleHandOf res of
        None \<Rightarrow> None
      | Some landmarks \<Rightarrow> (case detectGesture landmarks of Inl f \<Rightarrow> None | Inr gesture \<Rightarrow> Some gesture))"

definition isSwipe :: "event \<Rightarrow> bool" where
  "isSwipe ev = (case ev of Swipe d \<Rightarrow> True | _ \<Rightarrow> False)"

definition isZoom :: "event \<Rightarrow> bool" where
  "isZoom ev = (case ev of Zoom s \<Rightarrow> True | _ \<Rightarrow> False)"

text \<open>The zoom factor as the specification words it: clamp the ratio to [0.85, 1.15], amplify by 1.5.\<close>

definition clamp :: "real \<Rightarrow> real \<Rightarrow> real \<Rightarrow> real" where
  "clamp v lo hi = (if v < lo then lo else if hi < v then hi else v)"

definition specScaleFactor :: "real \<Rightarrow> real \<Rightarrow> real" where
  "specScaleFactor d0 d1 = 1 + (clamp (d1 / d0) 0.85 1.15 - 1) * 1.5"

section \<open>Hand tracker: landmark smoothing\<close>

text \<open>
  The fields of \<^verbatim>\<open>HandTracker\<close> that \<^verbatim>\<open>handleResults\<close> and \<^verbatim>\<open>smoothLandmarks\<close>
  use: whether a results callback is registered, the window, and the per-slot history
  (a JavaScript array indexed by \<^verbatim>\<open>handIndex\<close>; a missing entry is \<open>None\<close>).
\<close>

record hand_tracker =
  onResultsCallback :: bool
  smoothingWindow :: nat
  landmarkHistory :: "nat \<Rightarrow> hand list option"

definition HandTracker :: hand_tracker where
  "HandTracker = \<lparr> onResultsCallback = False, smoothingWindow = 3, landmarkHistory = (\<lambda>k. None) \<rparr>"

text \<open>\<^verbatim>\<open>init\<close>, as far as the smoothing is concerned: it registers the callback.\<close>

definition init :: "hand_tracker \<Rightarrow> hand_tracker" where
  "init t = t\<lparr> onResultsCallback := True \<rparr>"

text \<open>
  One output landmark: the mean of landmark \<open>i\<close> over the buffered frames. An empty
  buffer (possible only with a window of 0) makes the source divide 0 by 0.
\<close>

definition smoothPoint :: "hand list \<Rightarrow> nat \<Rightarrow> failure + landmark" where
  "smoothPoint history i =
     (case mapE (\<lambda>frame. lm_at frame i) history of
        Inl f \<Rightarrow> Inl f
      | Inr pts \<Rightarrow>
          if history = [] then Inl NaNValue
          else
            Inr \<lparr> x = sum_list (map x pts) / real (length history),
                  y = sum_list (map y pts) / real (length history),
                  z = sum_list (map z pts) / real (length history) \<rparr>)"

text \<open>
  \<^verbatim>\<open>smoothLandmarks\<close>. The history is written before the averaging can throw, so the
  tracker is returned in either case.
\<close>

definition smoothLandmarks :: "hand \<Rightarrow> nat \<Rightarrow> hand_tracker \<Rightarrow> hand_tracker \<times> (failure + hand)" where
  "smoothLandmarks landmarks handIndex t =
     (let pushed = (case landmarkHistory t handIndex of None \<Rightarrow> [] | Some h \<Rightarrow> h) @ [landmarks];
          kept = (if length pushed > smoothingWindow t then tl pushed else pushed);
          t1 = t\<lparr> landmarkHistory := (landmarkHistory t)(handIndex := Some kept) \<rparr>
      in (t1, mapE (smoothPoint kept) [0 ..< length landmarks]))"

text \<open>The \<^verbatim>\<open>forEach\<close> of \<^verbatim>\<open>handleResults\<close>, from hand index \<open>handIndex\<close> on.\<close>

fun smoothEach :: "hand list \<Rightarrow> nat \<Rightarrow> hand_tracker \<Rightarrow> hand_tracker \<times> (failure + hand list)" where
  "smoothEach [] handIndex t = (t, Inr [])"
| "smoothEach (landmarks # rest) handIndex t =
     (case smoothLandmarks landmarks handIndex t of
        (t1, Inl f) \<Rightarrow> (t1, Inl f)
      | (t1, Inr smoothed) \<Rightarrow>
          (case smoothEach rest (Suc handIndex) t1 of
             (t2, Inl f) \<Rightarrow> (t2, Inl f)
           | (t2, Inr others) \<Rightarrow> (t2, Inr (smoothed # others))))"

text \<open>
  \<^verbatim>\<open>handleResults\<close>: the new tracker and what is passed to the callback (\<open>None\<close> when
  no callback is registered and the call returns at once).
\<close>

definition handleResults :: "results \<Rightarrow> hand_tracker \<Rightarrow> hand_tracker \<times> (failure + results option)" where
  "handleResults res t =
     (if \<not> onResultsCallback t then (t, Inr None)
      else
        (case smoothEach (case multiHandLandmarks res of None \<Rightarrow> [] | Some hs \<Rightarrow> hs) 0 t of
           (t1, Inl f) \<Rightarrow> (t1, Inl f)
         | (t1, Inr smoothed) \<Rightarrow>
             (t1, Inr (Some \<lparr> multiHandLandmarks = Some smoothed,
                              multiHandedness =
                                Some (case multiHandedness res of None \<Rightarrow> [] | Some hs \<Rightarrow> hs) \<rparr>))))"

text \<open>The last \<open>n\<close> entries of a buffer.\<close>

definition lastN :: "nat \<Rightarrow> 'a list \<Rightarrow> 'a list" where
  "lastN n xs = drop (length xs - n) xs"

section \<open>Vocabulary of the properties\<close>

text \<open>A frame that passes the test of step 2: a point, horizontal and long enough.\<close>

definition qualifying :: "results \<Rightarrow> bool" where
  "qualifying res =
     (case singleHandOf res of
        None \<Rightarrow> False
      | Some landmarks \<Rightarrow> detectGesture landmarks = Inr Point \<and> horizontalPoint landmarks)"

text \<open>The index tip of a frame that reaches step 3 (a fist, or a point that is not a switch).\<close>

definition rotateTip :: "results \<Rightarrow> landmark option" where
  "rotateTip res =
     (case singleHandOf res of
        None \<Rightarrow> None
      | Some landmarks \<Rightarrow>
          (case detectGesture landmarks of
             Inl f \<Rightarrow> None
           | Inr gesture \<Rightarrow>
               if gesture = Fist \<or> (gesture = Point \<and> \<not> horizontalPoint landmarks)
               then Some (landmarks ! 8) else None))"

text \<open>Every frame is such a frame, with its index tip within 0.002 of the one before.\<close>

fun stillFrom :: "real \<Rightarrow> real \<Rightarrow> (int \<times> results) list \<Rightarrow> bool" where
  "stillFrom px py [] = True"
| "stillFrom px py ((t, res) # rest) =
     (case rotateTip res of
        None \<Rightarrow> False
      | Some tip \<Rightarrow> hypot (x tip - px) (y tip - py) \<le> 0.002 \<and> stillFrom (x tip) (y tip) rest)"

text \<open>The smoothing as the specification words it: the arithmetic mean of point \<open>i\<close> across the buffered frames.\<close>

definition meanPoint :: "hand list \<Rightarrow> nat \<Rightarrow> landmark" where
  "meanPoint frames i =
     \<lparr> x = (\<Sum>frame\<leftarrow>frames. x (frame ! i)) / real (length frames),
       y = (\<Sum>frame\<leftarrow>frames. y (frame ! i)) / real (length frames),
       z = (\<Sum>frame\<leftarrow>frames. z (frame ! i)) / real (length frames) \<rparr>"

definition meanHand :: "nat \<Rightarrow> hand list \<Rightarrow> hand" where
  "meanHand n frames = map (meanPoint frames) [0 ..< n]"

text \<open>The buffer of a slot; a slot never written has none.\<close>

definition slotBuffer :: "hand_tracker \<Rightarrow> nat \<Rightarrow> hand list" where
  "slotBuffer t k = (case landmarkHistory t k of None \<Rightarrow> [] | Some h \<Rightarrow> h)"

text \<open>A sequence of detector results fed to one tracker, with what each call hands to the callback.\<close>

fun track :: "hand_tracker \<Rightarrow> results list \<Rightarrow> hand_tracker \<times> (failure + results option) list" where
  "track t [] = (t, [])"
| "track t (res # rest) =
     (case handleResults res t of
        (t1, out) \<Rightarrow> (case track t1 rest of (t2, outs) \<Rightarrow> (t2, out # outs)))"

section \<open>Sample inputs\<close>

text \<open>
  Hands of 21 landmarks: every landmark at \<open>base\<close>, but the index tip (8) at \<open>indexTip\<close>
  and the other four tips (4, 12, 16, 20) at \<open>otherTip\<close>.
\<close>

definition pt :: "real \<Rightarrow> real \<Rightarrow> landmark" where
  "pt a b = \<lparr> x = a, y = b, z = 0 \<rparr>"

definition handWith :: "landmark \<Rightarrow> landmark \<Rightarrow> landmark \<Rightarrow> hand" where
  "handWith base indexTip otherTip =
     [base, base, base, base, otherTip, base, base, base, indexTip, base, base,
      base, otherTip, base, base, base, otherTip, base, base, base, otherTip]"

definition palmHand :: "real \<Rightarrow> real \<Rightarrow> hand" where
  "palmHand a b = handWith (pt a b) (pt a b) (pt a b)"

definition fistHand :: "real \<Rightarrow> real \<Rightarrow> hand" where
  "fistHand a b = handWith (pt a b) (pt a (b + 0.1)) (pt a (b + 0.1))"

definition pointHand :: "real \<Rightarrow> real \<Rightarrow> real \<Rightarrow> hand" where
  "pointHand a b d = handWith (pt a b) (pt (a + d) b) (pt a (b + 0.1))"

definition oneHand :: "hand \<Rightarrow> results" where
  "oneHand h = \<lparr> multiHandLandmarks = Some [h], multiHandedness = Some [''Right''] \<rparr>"

definition twoHands :: "hand \<Rightarrow> hand \<Rightarrow> results" where
  "twoHands h1 h2 = \<lparr> multiHandLandmarks = Some [h1, h2], multiHandedness = Some [''Left'', ''Right''] \<rparr>"

definition noHands :: results where
  "noHands = \<lparr> multiHandLandmarks = Some [], multiHandedness = Some [] \<rparr>"

text \<open>
  Engine states met on the way: after a fist at 900 ms; after a fist at 1000 ms and the
  same fist 0.1 further right at 1100 ms. A tracker that has buffered one hand in slot 0.
\<close>

definition trackingEngine :: engine where
  "trackingEngine = \<lparr> state = Tracking, gestureStartTime = Some 900,
     lastHandPosition = Some \<lparr> x = 0.5, y = 0.6, startX = 0.5, startY = 0.6 \<rparr>,
     pinchStartDistance = None, swipeCooldownTimestamp = None, palmStartTime = None,
     switchCooldown = None, lastMoveTime = None \<rparr>"

definition rotatingEngine :: engine where
  "rotatingEngine = \<lparr> state = Rotating, gestureStartTime = Some 1000,
     lastHandPosition = Some \<lparr> x = 0.6, y = 0.6, startX = 0.5, startY = 0.6 \<rparr>,
     pinchStartDistance = None, swipeCooldownTimestamp = None, palmStartTime = None,
     switchCooldown = None, lastMoveTime = Some 1100 \<rparr>"

definition sampleTracker :: hand_tracker where
  "sampleTracker = \<lparr> onResultsCallback = True, smoothingWindow = 3,
     landmarkHistory = (\<lambda>k. if k = 0 then Some [palmHand 0.2 0.2] else None) \<rparr>"

section \<open>Basic facts\<close>

text \<open>
  A hand is classified exactly when it has the 21 landmarks of the hand topology; with
  fewer, \<^verbatim>\<open>getFingerStates\<close> reads a coordinate of \<^verbatim>\<open>undefined\<close>.
\<close>

lemma getFingerStates_ok:
  "21 \<le> length l \<Longrightarrow> getFingerStates l =
     Inr [y (l ! 4) < y (l ! 3) + tolerance, y (l ! 8) < y (l ! 6) + tolerance,
          y (l ! 12) < y (l ! 10) + tolerance, y (l ! 16) < y (l ! 14) + tolerance,
          y (l ! 20) < y (l ! 18) + tolerance]"
  by (simp add: getFingerStates_def fingerTips_def fingerPips_def fingerExtended_def lm_at_def)

lemma getFingerStates_fail:
  "length l < 21 \<Longrightarrow> getFingerStates l = Inl TypeError"
  by (simp add: getFingerStates_def fingerTips_def fingerPips_def fingerExtended_def lm_at_def)

lemma detectGesture_ok:
  "21 \<le> length l \<Longrightarrow> detectGesture l =
     Inr (classifyStates
           [y (l ! 4) < y (l ! 3) + tolerance, y (l ! 8) < y (l ! 6) + tolerance,
            y (l ! 12) < y (l ! 10) + tolerance, y (l ! 16) < y (l ! 14) + tolerance,
            y (l ! 20) < y (l ! 18) + tolerance])"
  by (simp add: detectGesture_def getFingerStates_ok)

lemma detectGesture_Inr_length: "detectGesture l = Inr g \<Longrightarrow> 21 \<le> length l"
  using getFingerStates_fail[of l] by (cases "length l < 21") (simp_all add: detectGesture_def)

lemma hypot_0 [simp]: "hypot a 0 = \<bar>a\<bar>" "hypot 0 a = \<bar>a\<bar>"
  by (simp_all add: hypot_def)

lemma hypot_nonneg [simp]: "0 \<le> hypot a b"
  by (simp add: hypot_def)

text \<open>
  The branches of \<^verbatim>\<open>processFrame\<close> and of \<^verbatim>\<open>handleSingleHandGestures\<close>, as
  rewrite rules and as case analyses of a call that returned.
\<close>

lemma processFrame_single:
  "singleHandOf res = Some h \<Longrightarrow> processFrame now res e = handleSingleHandGestures now h e"
  by (auto simp: singleHandOf_def processFrame_def Let_def split: option.splits if_splits sum.splits)

lemma processFrame_two:
  "multiHandLandmarks res = Some hands \<Longrightarrow> 2 \<le> length hands \<Longrightarrow>
   centerDistance hands = Inr d \<Longrightarrow> \<not> d < 0.12 \<Longrightarrow>
   hasLabel (case multiHandedness res of None \<Rightarrow> [] | Some hs \<Rightarrow> hs) ''Left'' ''left'' \<Longrightarrow>
   hasLabel (case multiHandedness res of None \<Rightarrow> [] | Some hs \<Rightarrow> hs) ''Right'' ''right'' \<Longrightarrow>
   processFrame now res e = handleTwoHandGestures hands e"
  by (cases hands) (simp_all add: processFrame_def)

lemma processFrame_Inr_cases:
  assumes "processFrame now res e = Inr (e', evs)"
  obtains (nohands) "singleHandOf res = None" "resetState e = (e', evs)"
    | (single) h where "singleHandOf res = Some h" "handleSingleHandGestures now h e = Inr (e', evs)"
    | (two) hands where "singleHandOf res = None" "handleTwoHandGestures hands e = Inr (e', evs)"
  using assms
  by (auto simp: singleHandOf_def processFrame_def Let_def split: option.splits if_splits sum.splits)

lemma handleSingle_Inr_cases:
  assumes "handleSingleHandGestures now h e = Inr (e', evs)"
  obtains (cooldown) "cooldownActive now e" "e' = e" "evs = []"
    | (palm) "\<not> cooldownActive now e" "detectGesture h = Inr Palm" "palmHold now e = (e', evs)"
    | (switch) "\<not> cooldownActive now e" "detectGesture h = Inr Point" "horizontalPoint h"
        "switchModel now h (e\<lparr> palmStartTime := None \<rparr>) = (e', evs)"
    | (rotate) g where "\<not> cooldownActive now e" "detectGesture h = Inr g"
        "g = Fist \<or> (g = Point \<and> \<not> horizontalPoint h)"
        "rotateStep now (h ! 8) (e\<lparr> palmStartTime := None \<rparr>) = (e', evs)"
    | (other) g where "\<not> cooldownActive now e" "detectGesture h = Inr g"
        "g = Victory \<or> g = Unknown"
        "resetState (e\<lparr> palmStartTime := None \<rparr>) = (e', evs)"
proof (cases "cooldownActive now e")
  case True
  from assms True have "e' = e" "evs = []"
    by (simp_all add: handleSingleHandGestures_def)
  with True show ?thesis by (rule cooldown)
next
  case False
  from assms False obtain g where g: "detectGesture h = Inr g"
    by (auto simp: handleSingleHandGestures_def split: sum.splits)
  from assms False g
  have body: "(if g = Palm then palmHold now e
         else if g = Point \<and> horizontalPoint h then switchModel now h (e\<lparr> palmStartTime := None \<rparr>)
         else if g = Fist \<or> g = Point then rotateStep now (h ! 8) (e\<lparr> palmStartTime := None \<rparr>)
         else resetState (e\<lparr> palmStartTime := None \<rparr>)) = (e', evs)"
    by (auto simp: handleSingleHandGestures_def Let_def split: if_splits)
  show ?thesis
  proof (cases g)
    case Palm
    with body g False show ?thesis by (intro palm) simp_all
  next
    case Fist
    with body g False show ?thesis by (intro rotate[of g]) simp_all
  next
    case Point
    show ?thesis
    proof (cases "horizontalPoint h")
      case True
      with Point body g False show ?thesis by (intro switch) simp_all
    next
      case nh: False
      with Point body g False show ?thesis by (intro rotate[of g]) simp_all
    qed
  next
    case Victory
    with body g False show ?thesis by (intro other[of g]) simp_all
  next
    case Unknown
    with body g False show ?thesis by (intro other[of g]) simp_all
  qed
qed

lemma not_cooldown: "swipeCooldownTimestamp e = None \<Longrightarrow> \<not> cooldownActive now e"
  by (simp add: cooldownActive_def truthy_def)

lemma handleSingle_palm:
  "\<not> cooldownActive now e \<Longrightarrow> detectGesture h = Inr Palm \<Longrightarrow>
   handleSingleHandGestures now h e = Inr (palmHold now e)"
  by (simp add: handleSingleHandGestures_def)

lemma handleSingle_switch:
  "\<not> cooldownActive now e \<Longrightarrow> detectGesture h = Inr Point \<Longrightarrow> horizontalPoint h \<Longrightarrow>
   handleSingleHandGestures now h e = Inr (switchModel now h (e\<lparr> palmStartTime := None \<rparr>))"
  by (simp add: handleSingleHandGestures_def)

lemma handleSingle_rotate:
  "\<not> cooldownActive now e \<Longrightarrow> detectGesture h = Inr g \<Longrightarrow>
   g = Fist \<or> (g = Point \<and> \<not> horizontalPoint h) \<Longrightarrow>
   handleSingleHandGestures now h e = Inr (rotateStep now (h ! 8) (e\<lparr> palmStartTime := None \<rparr>))"
  by (auto simp: handleSingleHandGestures_def)

lemma handleSingle_other:
  "\<not> cooldownActive now e \<Longrightarrow> detectGesture h = Inr g \<Longrightarrow> g = Victory \<or> g = Unknown \<Longrightarrow>
   handleSingleHandGestures now h e = Inr (resetState (e\<lparr> palmStartTime := None \<rparr>))"
  by (auto simp: handleSingleHandGestures_def)

lemma framePose_single:
  "singleHandOf res = Some h \<Longrightarrow> detectGesture h = Inr g \<Longrightarrow> framePose res = Some g"
  by (simp add: framePose_def)

lemma framePose_none: "singleHandOf res = None \<Longrightarrow> framePose res = None"
  by (simp add: framePose_def)

lemmas branch_defs = resetState_def palmHold_def switchModel_def rotateStep_def

lemma run_append:
  "run e (as @ bs) =
     (case run e as of
        Inl f \<Rightarrow> Inl f
      | Inr (e1, evs1) \<Rightarrow>
          (case run e1 bs of Inl f \<Rightarrow> Inl f | Inr (e2, evs2) \<Rightarrow> Inr (e2, evs1 @ evs2)))"
  by (induction as arbitrary: e) (auto split: sum.splits prod.splits)

lemma run_snoc_Inr:
  assumes "run e (pre @ [(t, f)]) = Inr (e', evs)"
  obtains e1 evs0 evs1 where "run e pre = Inr (e1, evs0)" "processFrame t f e1 = Inr (e', evs1)"
    "evs = evs0 @ evs1"
  using assms by (auto simp: run_append split: sum.splits prod.splits)

section \<open>The sample inputs evaluated\<close>

lemma length_handWith: "length (handWith b i t) = 21"
  by (simp add: handWith_def)

lemma detect_palmHand: "detectGesture (palmHand a b) = Inr Palm"
  by (simp add: detectGesture_def getFingerStates_ok length_handWith palmHand_def)
     (simp add: handWith_def pt_def tolerance_def classifyStates_def fs_at_def)

lemma detect_fistHand: "detectGesture (fistHand a b) = Inr Fist"
  by (simp add: detectGesture_def getFingerStates_ok length_handWith fistHand_def)
     (simp add: handWith_def pt_def tolerance_def classifyStates_def fs_at_def)

lemma detect_pointHand: "detectGesture (pointHand a b d) = Inr Point"
  by (simp add: detectGesture_def getFingerStates_ok length_handWith pointHand_def)
     (simp add: handWith_def pt_def tolerance_def classifyStates_def fs_at_def)

lemma center_palmHand: "getHandCenter (palmHand a b) = Inr \<lparr> x = a, y = b \<rparr>"
  by (simp add: getHandCenter_def palmHand_def handWith_def pt_def)

lemma centerDistance_palms:
  "centerDistance [palmHand a b, palmHand c b] = Inr \<bar>a - c\<bar>"
  by (simp add: centerDistance_def hand_at_def center_palmHand)

lemma tips [simp]:
  "fistHand a b ! 8 = pt a (b + 0.1)" "palmHand a b ! 8 = pt a b" "pointHand a b d ! 8 = pt (a + d) b"
  "fistHand a b ! 5 = pt a b" "palmHand a b ! 5 = pt a b" "pointHand a b d ! 5 = pt a b"
  by (simp_all add: fistHand_def palmHand_def pointHand_def handWith_def)

lemma pt_sel [simp]: "x (pt a b) = a" "y (pt a b) = b" "z (pt a b) = 0"
  by (simp_all add: pt_def)

lemma horizontal_pointHand: "horizontalPoint (pointHand a b d) = (\<bar>d\<bar> > 0.04)"
  by (auto simp: horizontalPoint_def Let_def)

lemma palm_nth: "i < 21 \<Longrightarrow> palmHand a b ! i = pt a b"
  by (simp add: palmHand_def handWith_def nth_Cons' )

lemma length_palmHand [simp]: "length (palmHand a b) = 21"
  by (simp add: palmHand_def length_handWith)

lemma singleHandOf_oneHand [simp]: "singleHandOf (oneHand h) = Some h"
  by (simp add: singleHandOf_def oneHand_def)

lemma processFrame_oneHand: "processFrame now (oneHand h) e = handleSingleHandGestures now h e"
  by (simp add: processFrame_single)

lemma processFrame_noHands: "processFrame now noHands e = Inr (resetState e)"
  by (simp add: processFrame_def noHands_def)

lemma processFrame_twoHands:
  "centerDistance [h1, h2] = Inr d \<Longrightarrow> \<not> d < 0.12 \<Longrightarrow>
   processFrame now (twoHands h1 h2) e = handleTwoHandGestures [h1, h2] e"
  by (simp add: processFrame_def twoHands_def hasLabel_def)

lemma processFrame_twoPalms:
  "\<not> \<bar>a - c\<bar> < 0.12 \<Longrightarrow>
   processFrame now (twoHands (palmHand a b) (palmHand c b)) e
     = handleTwoHandGestures [palmHand a b, palmHand c b] e"
  by (rule processFrame_twoHands[OF centerDistance_palms])

lemma GestureEngine_fields [simp]:
  "state GestureEngine = Idle" "gestureStartTime GestureEngine = None"
  "lastHandPosition GestureEngine = None" "pinchStartDistance GestureEngine = None"
  "swipeCooldownTimestamp GestureEngine = None" "palmStartTime GestureEngine = None"
  "switchCooldown GestureEngine = None" "lastMoveTime GestureEngine = None"
  by (simp_all add: GestureEngine_def)

lemma framePose_oneHand:
  "detectGesture h = Inr g \<Longrightarrow> framePose (oneHand h) = Some g"
  by (simp add: framePose_def)

lemma framePose_samples [simp]:
  "framePose (oneHand (palmHand a b)) = Some Palm"
  "framePose (oneHand (fistHand a b)) = Some Fist"
  "framePose (oneHand (pointHand a b d)) = Some Point"
  "framePose noHands = None"
  by (simp_all add: framePose_oneHand detect_palmHand detect_fistHand detect_pointHand)
     (simp add: framePose_def singleHandOf_def noHands_def)

lemma framePose_twoPalms:
  "\<not> \<bar>a - c\<bar> < 0.12 \<Longrightarrow> framePose (twoHands (palmHand a b) (palmHand c b)) = None"
  by (simp add: framePose_def singleHandOf_def twoHands_def centerDistance_palms hasLabel_def)

lemma qualifying_pointHand: "0.04 < \<bar>d\<bar> \<Longrightarrow> qualifying (oneHand (pointHand a b d))"
  by (simp add: qualifying_def detect_pointHand horizontal_pointHand)

lemma rotateTip_fist: "rotateTip (oneHand (fistHand a b)) = Some (pt a (b + 0.1))"
  by (simp add: rotateTip_def detect_fistHand)

lemmas eval_defs = processFrame_oneHand processFrame_noHands handleSingle_palm handleSingle_switch
  handleSingle_rotate[where g = Fist] detect_palmHand detect_fistHand detect_pointHand not_cooldown
  horizontal_pointHand palmHold_def switchModel_def rotateStep_def resetState_def truthy_def
  numeric_def Let_def

lemma sample_engines_reached:
  "run GestureEngine [(900, oneHand (fistHand 0.5 0.5))] = Inr (trackingEngine, [])"
  "run GestureEngine [(1000, oneHand (fistHand 0.5 0.5)), (1100, oneHand (fistHand 0.6 0.5))]
     = Inr (rotatingEngine, [Rotate 0.25 0])"
  by (simp_all add: eval_defs GestureEngine_def trackingEngine_def rotatingEngine_def)

section \<open>Pose classifier: priority order\<close>

text \<open>
  C3 (as amended). For every assignment of the five finger-extension booleans, with E the
  number of extended digits, the classifier returns Palm if E >= 4; else Victory if index
  and middle are extended and ring and pinky are not; else Fist if E = 0, or E = 1 with
  only the thumb extended; else Point if the index is extended; else Point if E = 1 (a
  single extended middle, ring or little finger); otherwise Unknown, in this order.
\<close>

theorem classifier_priority_amended:
  "classifyStates [thumb, index, middle, ring, pinky]
     = amended_classify thumb index middle ring pinky"
  by (cases thumb; cases index; cases middle; cases ring; cases pinky)
     (simp_all add: classifyStates_def amended_classify_def extended_count_def fs_at_def)

text \<open>
  C3 as stated fails: with only the middle finger extended the specification's list ends
  in Unknown, and the classifier answers Point.
\<close>

theorem classifier_priority_counterexample:
  "classifyStates [False, False, True, False, False] = Point
   \<and> spec_classify False False True False False = Unknown"
  by (simp add: classifyStates_def spec_classify_def extended_count_def fs_at_def)

section \<open>Two-hand branch: zoom ratio\<close>

lemma max_min_clamp: "lo \<le> hi \<Longrightarrow> max lo (min hi r) = clamp r lo hi"
  by (simp add: clamp_def max_def min_def)

lemma handleTwoHandGestures_baseline:
  "centerDistance hands = Inr d \<Longrightarrow>
   \<exists>e1 evs. handleTwoHandGestures hands e = Inr (e1, evs) \<and> pinchStartDistance e1 = Some d"
  by (simp add: handleTwoHandGestures_def Let_def split: option.splits)

text \<open>
  C1. Two consecutive frames go through the two-hand branch, with inter-hand distances
  \<open>d0 > 0\<close> and then \<open>d1\<close>. Whatever the engine was before, the second frame emits
  exactly the event Zoom with scale factor 1 + (clamp(d1/d0, 0.85, 1.15) - 1) * 1.5 when
  that factor differs from 1 by more than 0.0005, emits nothing otherwise, and leaves
  \<open>d1\<close> as the baseline in either case.
\<close>

theorem zoom_ratio:
  assumes d0: "centerDistance hands0 = Inr d0" and pos: "0 < d0"
      and d1: "centerDistance hands1 = Inr d1"
  shows "\<exists>e1 evs0.
           handleTwoHandGestures hands0 e = Inr (e1, evs0)
         \<and> handleTwoHandGestures hands1 e1 =
             Inr (e1\<lparr> pinchStartDistance := Some d1 \<rparr>,
                  if \<bar>specScaleFactor d0 d1 - 1\<bar> > 0.0005
                  then [Zoom (specScaleFactor d0 d1)] else [])"
proof -
  from handleTwoHandGestures_baseline[OF d0, of e]
  obtain e1 evs0 where first: "handleTwoHandGestures hands0 e = Inr (e1, evs0)"
    and base: "pinchStartDistance e1 = Some d0" by blast
  have "handleTwoHandGestures hands1 e1 =
          Inr (e1\<lparr> pinchStartDistance := Some d1 \<rparr>,
               if \<bar>specScaleFactor d0 d1 - 1\<bar> > 0.0005
               then [Zoom (specScaleFactor d0 d1)] else [])"
    using d1 base pos
    by (simp add: handleTwoHandGestures_def Let_def specScaleFactor_def max_min_clamp)
  with first show ?thesis by blast
qed

theorem zoom_ratio_witness:
  "\<exists>e1 evs0.
      handleTwoHandGestures [palmHand 0.2 0.5, palmHand 0.8 0.5] GestureEngine = Inr (e1, evs0)
    \<and> handleTwoHandGestures [palmHand 0.2 0.5, palmHand 0.86 0.5] e1 =
        Inr (e1\<lparr> pinchStartDistance := Some 0.66 \<rparr>, [Zoom 1.15])"
proof -
  have s: "specScaleFactor 0.6 0.66 = 1.15"
    by (simp add: specScaleFactor_def clamp_def)
  have a: "centerDistance [palmHand 0.2 0.5, palmHand 0.8 0.5] = Inr 0.6"
    by (simp add: centerDistance_palms)
  have b: "centerDistance [palmHand 0.2 0.5, palmHand 0.86 0.5] = Inr 0.66"
    by (simp add: centerDistance_palms)
  show ?thesis
    using zoom_ratio[OF a _ b, of GestureEngine] unfolding s by simp
qed

section \<open>Ghost suppression\<close>

lemma branch_no_zoom:
  "resetState e = (e', evs) \<Longrightarrow> \<forall>ev\<in>set evs. \<not> isZoom ev"
  "palmHold now e = (e', evs) \<Longrightarrow> \<forall>ev\<in>set evs. \<not> isZoom ev"
  "switchModel now h e = (e', evs) \<Longrightarrow> \<forall>ev\<in>set evs. \<not> isZoom ev"
  "rotateStep now tip e = (e', evs) \<Longrightarrow> \<forall>ev\<in>set evs. \<not> isZoom ev"
  by (auto simp: branch_defs isZoom_def Let_def split: if_splits option.splits)

lemma branch_pinch:
  "resetState e = (e', evs) \<Longrightarrow> pinchStartDistance e' = None"
  "palmHold now e = (e', evs) \<Longrightarrow> pinchStartDistance e' = pinchStartDistance e \<or> pinchStartDistance e' = None"
  "switchModel now h e = (e', evs) \<Longrightarrow> pinchStartDistance e' = pinchStartDistance e"
  "rotateStep now tip e = (e', evs) \<Longrightarrow> pinchStartDistance e' = pinchStartDistance e \<or> pinchStartDistance e' = None"
  by (auto simp: branch_defs Let_def split: if_splits option.splits)

lemma branch_state_not_pinching:
  "resetState e = (e', evs) \<Longrightarrow> state e' \<noteq> Pinching"
  "palmHold now e = (e', evs) \<Longrightarrow> state e' = Pinching \<Longrightarrow> state e = Pinching"
  "switchModel now h e = (e', evs) \<Longrightarrow> state e' = Pinching \<Longrightarrow> state e = Pinching"
  "rotateStep now tip e = (e', evs) \<Longrightarrow> state e' = Pinching \<Longrightarrow> state e = Pinching"
  by (auto simp: branch_defs Let_def split: if_splits option.splits)

lemma handleSingle_no_zoom:
  assumes "handleSingleHandGestures now h e = Inr (e', evs)"
  shows "(\<forall>ev\<in>set evs. \<not> isZoom ev)
       \<and> (pinchStartDistance e' = pinchStartDistance e \<or> pinchStartDistance e' = None)
       \<and> (state e' = Pinching \<longrightarrow> state e = Pinching)"
  using assms
proof (cases rule: handleSingle_Inr_cases)
  case cooldown
  then show ?thesis by simp
next
  case palm
  then show ?thesis
    using branch_no_zoom(2)[OF palm(3)] branch_pinch(2)[OF palm(3)]
      branch_state_not_pinching(2)[OF palm(3)] by simp
next
  case switch
  then show ?thesis
    using branch_no_zoom(3)[OF switch(4)] branch_pinch(3)[OF switch(4)]
      branch_state_not_pinching(3)[OF switch(4)] by simp
next
  case (rotate g)
  then show ?thesis
    using branch_no_zoom(4)[OF rotate(4)] branch_pinch(4)[OF rotate(4)]
      branch_state_not_pinching(4)[OF rotate(4)] by simp
next
  case (other g)
  then show ?thesis
    using branch_no_zoom(1)[OF other(4)] branch_pinch(1)[OF other(4)]
      branch_state_not_pinching(1)[OF other(4)] by simp
qed

lemma singleHandOf_ghost:
  "multiHandLandmarks res = Some hands \<Longrightarrow> 2 \<le> length hands \<Longrightarrow>
   centerDistance hands = Inr d \<Longrightarrow> d < 0.12 \<Longrightarrow> singleHandOf res = Some (hands ! 0)"
  by (cases hands) (simp_all add: singleHandOf_def)

text \<open>
  C8. A frame with two or more detected hands whose centres (means of the landmark x and
  y coordinates) are less than 0.12 apart is processed exactly as the single-hand branch
  processes its first hand; it emits no Zoom event, sets no pinch baseline and does not
  enter the Pinching state.
\<close>

theorem ghost_suppression:
  assumes "multiHandLandmarks res = Some hands" and "2 \<le> length hands"
      and "centerDistance hands = Inr d" and "d < 0.12"
  shows "processFrame now res e = handleSingleHandGestures now (hands ! 0) e
       \<and> (\<forall>e' evs. processFrame now res e = Inr (e', evs) \<longrightarrow>
             (\<forall>ev\<in>set evs. \<not> isZoom ev)
           \<and> (pinchStartDistance e' = pinchStartDistance e \<or> pinchStartDistance e' = None)
           \<and> (state e' = Pinching \<longrightarrow> state e = Pinching))"
  using processFrame_single[OF singleHandOf_ghost[OF assms]] handleSingle_no_zoom
  by simp

theorem ghost_suppression_witness:
  "processFrame 1000 (twoHands (palmHand 0.5 0.5) (palmHand 0.55 0.5)) GestureEngine
     = Inr (GestureEngine\<lparr> palmStartTime := Some 1000 \<rparr>, [])"
proof -
  have cd: "centerDistance [palmHand 0.5 0.5, palmHand 0.55 0.5] = Inr 0.05"
    by (simp add: centerDistance_palms)
  have "processFrame 1000 (twoHands (palmHand 0.5 0.5) (palmHand 0.55 0.5)) GestureEngine
          = handleSingleHandGestures 1000 ([palmHand 0.5 0.5, palmHand 0.55 0.5] ! 0) GestureEngine"
    using ghost_suppression[of "twoHands (palmHand 0.5 0.5) (palmHand 0.55 0.5)"
        "[palmHand 0.5 0.5, palmHand 0.55 0.5]" "0.05" 1000 GestureEngine] cd
    by (simp add: twoHands_def)
  moreover have "handleSingleHandGestures 1000 (palmHand 0.5 0.5) GestureEngine
      = Inr (GestureEngine\<lparr> palmStartTime := Some 1000 \<rparr>, [])"
    by (simp add: handleSingle_palm detect_palmHand not_cooldown palmHold_def truthy_def numeric_def)
  ultimately show ?thesis by simp
qed

section \<open>The Locked state is never entered\<close>

lemma branch_not_locked:
  "state e \<noteq> Locked \<Longrightarrow> resetState e = (e', evs) \<Longrightarrow> state e' \<noteq> Locked \<and> Lock \<notin> set evs \<and> Unlock \<notin> set evs"
  "state e \<noteq> Locked \<Longrightarrow> palmHold now e = (e', evs) \<Longrightarrow> state e' \<noteq> Locked \<and> Lock \<notin> set evs \<and> Unlock \<notin> set evs"
  "state e \<noteq> Locked \<Longrightarrow> switchModel now h e = (e', evs) \<Longrightarrow> state e' \<noteq> Locked \<and> Lock \<notin> set evs \<and> Unlock \<notin> set evs"
  "state e \<noteq> Locked \<Longrightarrow> rotateStep now tip e = (e', evs) \<Longrightarrow> state e' \<noteq> Locked \<and> Lock \<notin> set evs \<and> Unlock \<notin> set evs"
  by (auto simp: branch_defs Let_def split: if_splits option.splits)

lemma handleTwoHand_not_locked:
  "state e \<noteq> Locked \<Longrightarrow> handleTwoHandGestures hands e = Inr (e', evs) \<Longrightarrow>
   state e' \<noteq> Locked \<and> Lock \<notin> set evs \<and> Unlock \<notin> set evs"
  by (auto simp: handleTwoHandGestures_def Let_def split: sum.splits option.splits if_splits)

lemma handleSingle_not_locked:
  assumes "state e \<noteq> Locked" "handleSingleHandGestures now h e = Inr (e', evs)"
  shows "state e' \<noteq> Locked \<and> Lock \<notin> set evs \<and> Unlock \<notin> set evs"
  using assms(2)
proof (cases rule: handleSingle_Inr_cases)
  case cooldown
  with assms show ?thesis by simp
next
  case palm
  with assms branch_not_locked(2) show ?thesis by blast
next
  case switch
  with assms branch_not_locked(3)[OF _ switch(4)] show ?thesis by simp
next
  case (rotate g)
  with assms branch_not_locked(4)[OF _ rotate(4)] show ?thesis by simp
next
  case (other g)
  with assms branch_not_locked(1)[OF _ other(4)] show ?thesis by simp
qed

lemma processFrame_not_locked:
  assumes "state e \<noteq> Locked" "processFrame now res e = Inr (e', evs)"
  shows "state e' \<noteq> Locked \<and> Lock \<notin> set evs \<and> Unlock \<notin> set evs"
  using assms(2)
proof (cases rule: processFrame_Inr_cases)
  case nohands
  with assms branch_not_locked(1) show ?thesis by blast
next
  case (single h)
  with assms handleSingle_not_locked show ?thesis by blast
next
  case (two hands)
  with assms handleTwoHand_not_locked show ?thesis by blast
qed

lemma run_not_locked:
  "state e \<noteq> Locked \<Longrightarrow> run e frames = Inr (e', evs) \<Longrightarrow>
   state e' \<noteq> Locked \<and> Lock \<notin> set evs \<and> Unlock \<notin> set evs"
proof (induction frames arbitrary: e e' evs)
  case Nil
  then show ?case by simp
next
  case (Cons fr frames)
  obtain now res where fr: "fr = (now, res)" by (cases fr)
  from Cons.prems(2) fr obtain e1 evs1 e2 evs2 where
    step: "processFrame now res e = Inr (e1, evs1)" and
    rest: "run e1 frames = Inr (e2, evs2)" and
    out: "e' = e2" "evs = evs1 @ evs2"
    by (auto split: sum.splits prod.splits)
  from processFrame_not_locked[OF Cons.prems(1) step]
  have 1: "state e1 \<noteq> Locked" "Lock \<notin> set evs1" "Unlock \<notin> set evs1" by simp_all
  from Cons.IH[OF 1(1) rest] 1 out show ?case by simp
qed

text \<open>
  C10. Starting from the constructor's state, after any sequence of frames the state is
  not Locked, no Lock and no Unlock event has been emitted, and a call of
  \<^verbatim>\<open>resetState\<close> would not take its unlock branch.
\<close>

theorem never_locked:
  assumes "run GestureEngine frames = Inr (e, evs)"
  shows "state e \<noteq> Locked \<and> Lock \<notin> set evs \<and> Unlock \<notin> set evs \<and> snd (resetState e) = []"
proof -
  have "state GestureEngine \<noteq> Locked" by (simp add: GestureEngine_def)
  from run_not_locked[OF this assms] show ?thesis by (simp add: resetState_def)
qed

theorem never_locked_witness:
  "run GestureEngine [(1000, oneHand (fistHand 0.5 0.5)), (1100, noHands)] = Inr (GestureEngine, [])
   \<and> state GestureEngine \<noteq> Locked \<and> Lock \<notin> set ([] :: event list)
   \<and> Unlock \<notin> set ([] :: event list) \<and> snd (resetState GestureEngine) = []"
proof -
  have r: "run GestureEngine [(1000, oneHand (fistHand 0.5 0.5)), (1100, noHands)]
             = Inr (GestureEngine, [])"
    by (simp add: eval_defs GestureEngine_def)
  from never_locked[OF r] r show ?thesis by simp
qed

section \<open>The global swipe cooldown\<close>

text \<open>
  No branch writes \<^verbatim>\<open>swipeCooldownTimestamp\<close>: it stays unset in every state reached
  from the constructor's, and the guard that reads it never holds.
\<close>

lemma handleTwoHand_swipeCooldownTimestamp:
  "handleTwoHandGestures hands e = Inr (e', evs) \<Longrightarrow>
   swipeCooldownTimestamp e' = swipeCooldownTimestamp e"
  by (auto simp: handleTwoHandGestures_def Let_def split: sum.splits option.splits)

lemma branch_swipeCooldownTimestamp:
  "resetState e = (e', evs) \<Longrightarrow> swipeCooldownTimestamp e' = swipeCooldownTimestamp e"
  "palmHold now e = (e', evs) \<Longrightarrow> swipeCooldownTimestamp e' = swipeCooldownTimestamp e"
  "switchModel now h e = (e', evs) \<Longrightarrow> swipeCooldownTimestamp e' = swipeCooldownTimestamp e"
  "rotateStep now tip e = (e', evs) \<Longrightarrow> swipeCooldownTimestamp e' = swipeCooldownTimestamp e"
  by (auto simp: branch_defs Let_def split: if_splits option.splits)

lemma processFrame_swipeCooldownTimestamp:
  assumes "processFrame now res e = Inr (e', evs)"
  shows "swipeCooldownTimestamp e' = swipeCooldownTimestamp e"
  using assms
proof (cases rule: processFrame_Inr_cases)
  case nohands
  then show ?thesis by (simp add: branch_swipeCooldownTimestamp(1))
next
  case (single h)
  from single(2) show ?thesis
  proof (cases rule: handleSingle_Inr_cases)
    case cooldown
    then show ?thesis by simp
  next
    case palm
    then show ?thesis by (simp add: branch_swipeCooldownTimestamp(2))
  next
    case switch
    from branch_swipeCooldownTimestamp(3)[OF switch(4)] show ?thesis by simp
  next
    case (rotate g)
    from branch_swipeCooldownTimestamp(4)[OF rotate(4)] show ?thesis by simp
  next
    case (other g)
    from branch_swipeCooldownTimestamp(1)[OF other(4)] show ?thesis by simp
  qed
next
  case (two hands)
  then show ?thesis by (simp add: handleTwoHand_swipeCooldownTimestamp)
qed

lemma run_swipeCooldownTimestamp:
  "run e frames = Inr (e', evs) \<Longrightarrow> swipeCooldownTimestamp e' = swipeCooldownTimestamp e"
proof (induction frames arbitrary: e e' evs)
  case Nil
  then show ?case by simp
next
  case (Cons fr frames)
  obtain now res where fr: "fr = (now, res)" by (cases fr)
  from Cons.prems fr obtain e1 evs1 e2 evs2 where
    step: "processFrame now res e = Inr (e1, evs1)" and
    rest: "run e1 frames = Inr (e2, evs2)" and out: "e' = e2"
    by (auto split: sum.splits prod.splits)
  from Cons.IH[OF rest] processFrame_swipeCooldownTimestamp[OF step] out show ?case by simp
qed

text \<open>
  C2 fails on the code. The guard at the head of \<^verbatim>\<open>handleSingleHandGestures\<close> reads
  \<^verbatim>\<open>swipeCooldownTimestamp\<close>, a field no statement assigns (a swipe records its time
  in \<^verbatim>\<open>switchCooldown\<close>). Here a fist latches an anchor at 1000 ms, a point to the
  right fires a Swipe at 1100 ms, and the fist frame at 1200 ms, 100 ms after the Swipe,
  is processed in full: it emits a Rotate event, enters Rotating, and moves the anchor
  and the last-move time.
\<close>

theorem swipe_cooldown_not_applied:
  "run GestureEngine [(1000, oneHand (fistHand 0.5 0.5)), (1100, oneHand (pointHand 0.5 0.5 0.1)),
      (1200, oneHand (fistHand 0.6 0.5))]
   = Inr (\<lparr> state = Rotating, gestureStartTime = Some 1000,
            lastHandPosition = Some \<lparr> x = 0.6, y = 0.6, startX = 0.5, startY = 0.6 \<rparr>,
            pinchStartDistance = None, swipeCooldownTimestamp = None, palmStartTime = None,
            switchCooldown = Some 1100, lastMoveTime = Some 1200 \<rparr>,
          [Swipe RIGHT, Rotate 0.25 0])"
  by (simp add: eval_defs GestureEngine_def)

section \<open>Swipe cooldown\<close>

lemma branch_switchCooldown:
  "resetState e = (e', evs) \<Longrightarrow> switchCooldown e' = switchCooldown e \<and> (\<forall>ev\<in>set evs. \<not> isSwipe ev)"
  "palmHold now e = (e', evs) \<Longrightarrow> switchCooldown e' = switchCooldown e \<and> (\<forall>ev\<in>set evs. \<not> isSwipe ev)"
  "rotateStep now tip e = (e', evs) \<Longrightarrow> switchCooldown e' = switchCooldown e \<and> (\<forall>ev\<in>set evs. \<not> isSwipe ev)"
  by (auto simp: branch_defs isSwipe_def Let_def split: if_splits option.splits)

lemma switchModel_blocked:
  "switchCooldown e = Some t1 \<Longrightarrow> t1 \<noteq> 0 \<Longrightarrow> now - t1 \<le> 1200 \<Longrightarrow>
   switchModel now h e = (e, [])"
  by (simp add: switchModel_def truthy_def numeric_def)

lemma switchModel_fires:
  "\<not> truthy (switchCooldown e) \<or> now - numeric (switchCooldown e) > 1200 \<Longrightarrow>
   \<exists>d. switchModel now h e = (e\<lparr> switchCooldown := Some now, state := Switching \<rparr>, [Swipe d])"
  by (auto simp: switchModel_def Let_def)

lemma handleTwoHand_switchCooldown:
  "handleTwoHandGestures hands e = Inr (e', evs) \<Longrightarrow>
   switchCooldown e' = switchCooldown e \<and> (\<forall>ev\<in>set evs. \<not> isSwipe ev)"
  by (auto simp: handleTwoHandGestures_def isSwipe_def Let_def split: sum.splits option.splits if_splits)

lemma processFrame_in_window:
  assumes sc: "switchCooldown e = Some t1" "t1 \<noteq> 0" "now - t1 \<le> 1200"
      and step: "processFrame now res e = Inr (e', evs)"
  shows "switchCooldown e' = Some t1 \<and> (\<forall>ev\<in>set evs. \<not> isSwipe ev)"
  using step
proof (cases rule: processFrame_Inr_cases)
  case nohands
  with branch_switchCooldown(1) sc show ?thesis by metis
next
  case (single h)
  from single(2) show ?thesis
  proof (cases rule: handleSingle_Inr_cases)
    case cooldown
    with sc show ?thesis by simp
  next
    case palm
    with branch_switchCooldown(2) sc show ?thesis by metis
  next
    case switch
    have "switchModel now h (e\<lparr> palmStartTime := None \<rparr>) = (e\<lparr> palmStartTime := None \<rparr>, [])"
      using sc by (intro switchModel_blocked[of _ t1]) simp_all
    with switch(4) sc show ?thesis by auto
  next
    case (rotate g)
    from branch_switchCooldown(3)[OF rotate(4)] sc show ?thesis by simp
  next
    case (other g)
    from branch_switchCooldown(1)[OF other(4)] sc show ?thesis by simp
  qed
next
  case (two hands)
  with handleTwoHand_switchCooldown sc show ?thesis by metis
qed

lemma run_in_window:
  "switchCooldown e = Some t1 \<Longrightarrow> t1 \<noteq> 0 \<Longrightarrow> \<forall>(t, f)\<in>set frames. t - t1 \<le> 1200 \<Longrightarrow>
   run e frames = Inr (e', evs) \<Longrightarrow>
   switchCooldown e' = Some t1 \<and> filter isSwipe evs = []"
proof (induction frames arbitrary: e e' evs)
  case Nil
  then show ?case by simp
next
  case (Cons fr frames)
  obtain now res where fr: "fr = (now, res)" by (cases fr)
  from Cons.prems(4) fr obtain e1 evs1 e2 evs2 where
    step: "processFrame now res e = Inr (e1, evs1)" and
    rest: "run e1 frames = Inr (e2, evs2)" and
    out: "e' = e2" "evs = evs1 @ evs2"
    by (auto split: sum.splits prod.splits)
  from Cons.prems(3) fr have w: "now - t1 \<le> 1200" "\<forall>(t, f)\<in>set frames. t - t1 \<le> 1200"
    by simp_all
  from processFrame_in_window[OF Cons.prems(1,2) w(1) step]
  have 1: "switchCooldown e1 = Some t1" "\<forall>ev\<in>set evs1. \<not> isSwipe ev" by simp_all
  from Cons.IH[OF 1(1) Cons.prems(2) w(2) rest] 1(2) out show ?case
    by (simp add: filter_empty_conv)
qed

lemma processFrame_qualifying:
  assumes "qualifying res" "swipeCooldownTimestamp e = None"
  shows "\<exists>h. singleHandOf res = Some h \<and>
     processFrame now res e = Inr (switchModel now h (e\<lparr> palmStartTime := None \<rparr>))"
  using assms
  by (auto simp: qualifying_def processFrame_single handleSingle_switch not_cooldown split: option.splits)

text \<open>
  C7. In a state the engine reaches, a qualifying horizontal-point frame arrives at
  \<open>t1\<close>, outside the cooldown of any earlier swipe; other frames follow, and a second
  qualifying frame less than 1200 ms after the first. The whole sequence emits exactly
  one Swipe event. (\<^verbatim>\<open>Date.now()\<close> is positive.)
\<close>

theorem swipe_cooldown:
  assumes reach: "run GestureEngine pre = Inr (e, evs0)"
      and free: "\<not> truthy (switchCooldown e) \<or> t1 - numeric (switchCooldown e) > 1200"
      and clock: "0 < t1"
      and q1: "qualifying f1" and q2: "qualifying f2"
      and near: "t2 - t1 < 1200"
      and mid: "\<forall>(t, f)\<in>set between. t \<le> t2"
      and ran: "run e ((t1, f1) # between @ [(t2, f2)]) = Inr (e', evs)"
  shows "length (filter isSwipe evs) = 1"
proof -
  have guard: "swipeCooldownTimestamp e = None"
    using run_swipeCooldownTimestamp[OF reach] by simp
  from processFrame_qualifying[OF q1 guard, of t1] obtain h where
    p: "processFrame t1 f1 e = Inr (switchModel t1 h (e\<lparr> palmStartTime := None \<rparr>))" by blast
  from switchModel_fires[of "e\<lparr> palmStartTime := None \<rparr>" t1 h] free obtain d where
    f: "switchModel t1 h (e\<lparr> palmStartTime := None \<rparr>)
          = (e\<lparr> palmStartTime := None, switchCooldown := Some t1, state := Switching \<rparr>, [Swipe d])"
    by auto
  let ?e1 = "e\<lparr> palmStartTime := None, switchCooldown := Some t1, state := Switching \<rparr>"
  from ran p f obtain evs2 where
    rest: "run ?e1 (between @ [(t2, f2)]) = Inr (e', evs2)" and out: "evs = Swipe d # evs2"
    by (auto split: sum.splits prod.splits)
  have w: "\<forall>(t, f)\<in>set (between @ [(t2, f2)]). t - t1 \<le> 1200"
    using mid near by auto
  have "filter isSwipe evs2 = []"
    using run_in_window[OF _ _ w rest] clock by simp
  with out show ?thesis by (simp add: isSwipe_def)
qed

theorem swipe_cooldown_witness:
  "run GestureEngine [(1000, oneHand (pointHand 0.5 0.5 0.1)), (1100, oneHand (fistHand 0.5 0.5)),
      (2199, oneHand (pointHand 0.5 0.5 (- 0.1)))]
     = Inr (\<lparr> state = Tracking, gestureStartTime = Some 1100,
              lastHandPosition = Some \<lparr> x = 0.5, y = 0.6, startX = 0.5, startY = 0.6 \<rparr>,
              pinchStartDistance = None, swipeCooldownTimestamp = None, palmStartTime = None,
              switchCooldown = Some 1000, lastMoveTime = None \<rparr>,
            [Swipe RIGHT])
   \<and> length (filter isSwipe [Swipe RIGHT]) = 1"
proof -
  have r: "run GestureEngine ((1000, oneHand (pointHand 0.5 0.5 0.1)) #
        [(1100, oneHand (fistHand 0.5 0.5))] @ [(2199, oneHand (pointHand 0.5 0.5 (- 0.1)))])
     = Inr (\<lparr> state = Tracking, gestureStartTime = Some 1100,
              lastHandPosition = Some \<lparr> x = 0.5, y = 0.6, startX = 0.5, startY = 0.6 \<rparr>,
              pinchStartDistance = None, swipeCooldownTimestamp = None, palmStartTime = None,
              switchCooldown = Some 1000, lastMoveTime = None \<rparr>,
            [Swipe RIGHT])"
    by (simp add: eval_defs GestureEngine_def)
  have start: "run GestureEngine [] = Inr (GestureEngine, [])" by simp
  have "length (filter isSwipe [Swipe RIGHT]) = 1"
    by (rule swipe_cooldown[OF start _ _ _ _ _ _ r])
       (simp_all add: truthy_def qualifying_pointHand)
  with r show ?thesis by simp
qed

section \<open>Palm hold\<close>

lemma processFrame_palm:
  assumes "framePose res = Some Palm" "swipeCooldownTimestamp e = None"
  shows "processFrame now res e = Inr (palmHold now e)"
proof -
  from assms(1) obtain h where h: "singleHandOf res = Some h" "detectGesture h = Inr Palm"
    by (auto simp: framePose_def split: option.splits sum.splits)
  with assms(2) show ?thesis
    by (simp add: processFrame_single handleSingle_palm not_cooldown)
qed

lemma palmHold_start:
  "\<not> truthy (palmStartTime e) \<Longrightarrow> palmHold now e = (e\<lparr> palmStartTime := Some now \<rparr>, [])"
  by (simp add: palmHold_def Let_def numeric_def)

lemma palmHold_waiting:
  "palmStartTime e = Some t0 \<Longrightarrow> t0 \<noteq> 0 \<Longrightarrow> now - t0 \<le> 1200 \<Longrightarrow> palmHold now e = (e, [])"
  by (simp add: palmHold_def Let_def numeric_def truthy_def)

lemma palmHold_idle:
  "palmStartTime e = Some t0 \<Longrightarrow> t0 \<noteq> 0 \<Longrightarrow> state e = Idle \<Longrightarrow> palmHold now e = (e, [])"
  by (simp add: palmHold_def Let_def numeric_def truthy_def)

lemma palmHold_fires:
  "palmStartTime e = Some t0 \<Longrightarrow> t0 \<noteq> 0 \<Longrightarrow> now - t0 > 1200 \<Longrightarrow> state e \<noteq> Idle \<Longrightarrow>
   palmHold now e =
     (e\<lparr> state := Idle, lastHandPosition := None, pinchStartDistance := None,
         gestureStartTime := None, palmStartTime := None \<rparr>,
      Reset # (if state e = Locked then [Unlock] else []))"
  by (simp add: palmHold_def Let_def numeric_def truthy_def resetState_def)

lemma run_palm_waiting:
  "palmStartTime e = Some t0 \<Longrightarrow> t0 \<noteq> 0 \<Longrightarrow> swipeCooldownTimestamp e = None \<Longrightarrow>
   \<forall>(t, f)\<in>set frames. framePose f = Some Palm \<and> t - t0 \<le> 1200 \<Longrightarrow>
   run e frames = Inr (e, [])"
  by (induction frames) (auto simp: processFrame_palm palmHold_waiting)

text \<open>
  C6 (as amended). In a state the engine reaches, with no palm-hold timer running, a palm
  hold starts at \<open>t0\<close> and only Palm frames follow. If they all come within 1199 ms of
  \<open>t0\<close>, nothing is emitted. If a Palm frame comes 1201 ms after \<open>t0\<close> (the ones between
  within 1200 ms), then exactly one Reset is emitted when the state was not Idle, the
  state becomes Idle, and the anchor, pinch baseline, gesture-start time and palm-hold
  time are cleared (the switch cooldown and last-move time are kept); when the state was
  Idle, nothing is emitted and the timer keeps running.
\<close>

theorem palm_hold_reset:
  assumes reach: "run GestureEngine pre = Inr (e, evs0)"
      and fresh: "\<not> truthy (palmStartTime e)"
      and clock: "0 < t0"
      and first: "framePose f0 = Some Palm"
      and last: "framePose fn = Some Palm"
  shows "((\<forall>(t, f)\<in>set frames. framePose f = Some Palm \<and> t - t0 \<le> 1199) \<longrightarrow>
            run e ((t0, f0) # frames) = Inr (e\<lparr> palmStartTime := Some t0 \<rparr>, []))
       \<and> ((\<forall>(t, f)\<in>set frames. framePose f = Some Palm \<and> t - t0 \<le> 1200) \<longrightarrow>
            run e ((t0, f0) # frames @ [(t0 + 1201, fn)]) =
              Inr (if state e = Idle then (e\<lparr> palmStartTime := Some t0 \<rparr>, [])
                   else (e\<lparr> state := Idle, lastHandPosition := None, pinchStartDistance := None,
                            gestureStartTime := None, palmStartTime := None \<rparr>,
                         [Reset])))"
proof -
  have guard: "swipeCooldownTimestamp e = None"
    using run_swipeCooldownTimestamp[OF reach] by simp
  have nl: "state e \<noteq> Locked"
    using run_not_locked[OF _ reach] by simp
  let ?e1 = "e\<lparr> palmStartTime := Some t0 \<rparr>"
  have step0: "processFrame t0 f0 e = Inr (?e1, [])"
    using processFrame_palm[OF first guard] palmHold_start[OF fresh] by simp
  have wait: "run ?e1 frames = Inr (?e1, [])"
    if "\<forall>(t, f)\<in>set frames. framePose f = Some Palm \<and> t - t0 \<le> 1200"
    using that guard clock by (intro run_palm_waiting[of _ t0]) simp_all
  have a: "run e ((t0, f0) # frames) = Inr (?e1, [])"
    if "\<forall>(t, f)\<in>set frames. framePose f = Some Palm \<and> t - t0 \<le> 1199"
  proof -
    from that have "\<forall>(t, f)\<in>set frames. framePose f = Some Palm \<and> t - t0 \<le> 1200" by fastforce
    from wait[OF this] step0 show ?thesis by simp
  qed
  have end_idle: "processFrame (t0 + 1201) fn ?e1 = Inr (?e1, [])" if "state e = Idle"
    using processFrame_palm[OF last, of ?e1 "t0 + 1201"] guard clock that
      palmHold_idle[of ?e1 t0 "t0 + 1201"] by simp
  have end_fire: "processFrame (t0 + 1201) fn ?e1 =
      Inr (e\<lparr> state := Idle, lastHandPosition := None, pinchStartDistance := None,
               gestureStartTime := None, palmStartTime := None \<rparr>, [Reset])" if "state e \<noteq> Idle"
    using processFrame_palm[OF last, of ?e1 "t0 + 1201"] guard clock that nl
      palmHold_fires[of ?e1 t0 "t0 + 1201"] by simp
  have b: "run e ((t0, f0) # frames @ [(t0 + 1201, fn)]) =
              Inr (if state e = Idle then (?e1, [])
                   else (e\<lparr> state := Idle, lastHandPosition := None, pinchStartDistance := None,
                            gestureStartTime := None, palmStartTime := None \<rparr>, [Reset]))"
    if "\<forall>(t, f)\<in>set frames. framePose f = Some Palm \<and> t - t0 \<le> 1200"
    using wait[OF that] step0 end_idle end_fire by (simp add: run_append)
  from a b show ?thesis by blast
qed

theorem palm_hold_reset_witness:
  "run trackingEngine [(1000, oneHand (palmHand 0.5 0.5)), (2199, oneHand (palmHand 0.5 0.5))]
     = Inr (trackingEngine\<lparr> palmStartTime := Some 1000 \<rparr>, [])
   \<and> run trackingEngine [(1000, oneHand (palmHand 0.5 0.5)), (1500, oneHand (palmHand 0.5 0.5)),
        (2201, oneHand (palmHand 0.5 0.5))]
     = Inr (trackingEngine\<lparr> state := Idle, lastHandPosition := None, pinchStartDistance := None,
              gestureStartTime := None, palmStartTime := None \<rparr>, [Reset])"
proof -
  let ?P = "oneHand (palmHand 0.5 0.5)"
  have e: "\<not> truthy (palmStartTime trackingEngine)" "state trackingEngine = Tracking"
    by (simp_all add: trackingEngine_def truthy_def)
  note h = palm_hold_reset[OF sample_engines_reached(1) e(1), of 1000 ?P ?P]
  from h[of "[(2199, ?P)]"]
  have a: "run trackingEngine [(1000, ?P), (2199, ?P)]
     = Inr (trackingEngine\<lparr> palmStartTime := Some 1000 \<rparr>, [])" by simp
  from h[of "[(1500, ?P)]"] e(2)
  have b: "run trackingEngine [(1000, ?P), (1500, ?P), (2201, ?P)]
     = Inr (trackingEngine\<lparr> state := Idle, lastHandPosition := None, pinchStartDistance := None,
              gestureStartTime := None, palmStartTime := None \<rparr>, [Reset])" by simp
  from a b show ?thesis by simp
qed

text \<open>
  C6 as stated fails: from the constructor's state, which is Idle, a palm held for
  1201 ms emits nothing.
\<close>

theorem palm_hold_reset_counterexample:
  "run GestureEngine [(1000, oneHand (palmHand 0.5 0.5)), (2201, oneHand (palmHand 0.5 0.5))]
     = Inr (GestureEngine\<lparr> palmStartTime := Some 1000 \<rparr>, [])"
  by (simp add: eval_defs)

section \<open>Palm-hold timer\<close>

lemma branch_palmStartTime:
  "resetState e = (e', evs) \<Longrightarrow> palmStartTime e' = palmStartTime e \<and> Reset \<notin> set evs"
  "switchModel now h e = (e', evs) \<Longrightarrow> palmStartTime e' = palmStartTime e \<and> Reset \<notin> set evs"
  "rotateStep now tip e = (e', evs) \<Longrightarrow> palmStartTime e' = palmStartTime e \<and> Reset \<notin> set evs"
  by (auto simp: branch_defs Let_def split: if_splits option.splits)

lemma handleTwoHand_palmStartTime:
  "handleTwoHandGestures hands e = Inr (e', evs) \<Longrightarrow>
   palmStartTime e' = palmStartTime e \<and> Reset \<notin> set evs"
  by (auto simp: handleTwoHandGestures_def Let_def split: sum.splits option.splits if_splits)

text \<open>
  What one frame does to the palm-hold timer, by the pose classified on it: a classified
  pose other than Palm clears it; a frame without hands and a two-hand frame, which have
  no classified pose, leave it as it is.
\<close>

lemma processFrame_palmStartTime:
  assumes guard: "swipeCooldownTimestamp e = None"
      and step: "processFrame now res e = Inr (e', evs)"
  shows "(framePose res = None \<longrightarrow> palmStartTime e' = palmStartTime e \<and> Reset \<notin> set evs)
       \<and> (framePose res = Some Palm \<longrightarrow> palmHold now e = (e', evs))
       \<and> (\<forall>g. framePose res = Some g \<and> g \<noteq> Palm \<longrightarrow> palmStartTime e' = None \<and> Reset \<notin> set evs)"
  using step
proof (cases rule: processFrame_Inr_cases)
  case nohands
  with branch_palmStartTime(1)[OF nohands(2)] show ?thesis by (simp add: framePose_none)
next
  case (two hands)
  with handleTwoHand_palmStartTime[OF two(2)] show ?thesis by (simp add: framePose_none)
next
  case (single h)
  from single(2) show ?thesis
  proof (cases rule: handleSingle_Inr_cases)
    case cooldown
    with guard show ?thesis by (simp add: not_cooldown)
  next
    case palm
    with single(1) show ?thesis by (simp add: framePose_single)
  next
    case switch
    with single(1) branch_palmStartTime(2)[OF switch(4)] show ?thesis
      by (simp add: framePose_single)
  next
    case (rotate g)
    with single(1) branch_palmStartTime(3)[OF rotate(4)] show ?thesis
      by (auto simp: framePose_single)
  next
    case (other g)
    with single(1) branch_palmStartTime(1)[OF other(4)] show ?thesis
      by (auto simp: framePose_single)
  qed
qed

lemma pinch_pre:
  "run GestureEngine [(1100, oneHand (palmHand 0.5 0.5)), (1200, noHands),
      (1300, twoHands (palmHand 0.2 0.5) (palmHand 0.8 0.5))]
     = Inr (\<lparr> state = Pinching, gestureStartTime = None, lastHandPosition = None,
              pinchStartDistance = Some 0.6, swipeCooldownTimestamp = None,
              palmStartTime = Some 1100, switchCooldown = None, lastMoveTime = None \<rparr>, [])"
  by (simp add: eval_defs processFrame_twoPalms handleTwoHandGestures_def centerDistance_palms
        GestureEngine_def)

lemma pinch_then_palm:
  "processFrame 2400 (oneHand (palmHand 0.5 0.5))
      \<lparr> state = Pinching, gestureStartTime = None, lastHandPosition = None,
        pinchStartDistance = Some 0.6, swipeCooldownTimestamp = None,
        palmStartTime = Some 1100, switchCooldown = None, lastMoveTime = None \<rparr>
     = Inr (GestureEngine, [Reset])"
  by (simp add: eval_defs GestureEngine_def)

text \<open>
  C4 fails on the code. The claim: every frame that is not a Palm frame clears the
  palm-hold timer, so a Reset needs at least 1200 ms of Palm classifications that no
  non-Palm, two-hand or zero-hand frame interrupts. The single-hand branch clears
  \<^verbatim>\<open>palmStartTime\<close> on a non-Palm pose, but \<^verbatim>\<open>resetState\<close> (a frame without hands)
  and \<^verbatim>\<open>handleTwoHandGestures\<close> do not. Here a palm at 1100 ms starts the timer, a frame
  without hands at 1200 ms and a two-hand frame at 1300 ms leave it running, and the palm
  at 2400 ms, the first Palm frame after the interruption, emits Reset at once.
\<close>

theorem palm_timer_not_cleared:
  "run GestureEngine [(1100, oneHand (palmHand 0.5 0.5)), (1200, noHands),
      (1300, twoHands (palmHand 0.2 0.5) (palmHand 0.8 0.5))]
     = Inr (\<lparr> state = Pinching, gestureStartTime = None, lastHandPosition = None,
              pinchStartDistance = Some 0.6, swipeCooldownTimestamp = None,
              palmStartTime = Some 1100, switchCooldown = None, lastMoveTime = None \<rparr>, [])
   \<and> run GestureEngine [(1100, oneHand (palmHand 0.5 0.5)), (1200, noHands),
      (1300, twoHands (palmHand 0.2 0.5) (palmHand 0.8 0.5)), (2400, oneHand (palmHand 0.5 0.5))]
     = Inr (GestureEngine, [Reset])
   \<and> framePose noHands = None
   \<and> framePose (twoHands (palmHand 0.2 0.5) (palmHand 0.8 0.5)) = None"
proof -
  have "framePose (twoHands (palmHand 0.2 0.5) (palmHand 0.8 0.5)) = None"
    by (simp add: framePose_twoPalms)
  moreover have "run GestureEngine ([(1100, oneHand (palmHand 0.5 0.5)), (1200, noHands),
      (1300, twoHands (palmHand 0.2 0.5) (palmHand 0.8 0.5))] @ [(2400, oneHand (palmHand 0.5 0.5))])
     = Inr (GestureEngine, [Reset])"
    unfolding run_append pinch_pre using pinch_then_palm by simp
  ultimately show ?thesis using pinch_pre by simp
qed

section \<open>Stillness\<close>

lemma processFrame_rotate:
  assumes "rotateTip res = Some tip" "swipeCooldownTimestamp e = None"
  shows "processFrame now res e = Inr (rotateStep now tip (e\<lparr> palmStartTime := None \<rparr>))"
proof -
  from assms(1) obtain h g where h: "singleHandOf res = Some h" "detectGesture h = Inr g"
    "g = Fist \<or> (g = Point \<and> \<not> horizontalPoint h)" "tip = h ! 8"
    by (auto simp: rotateTip_def split: option.splits sum.splits if_splits)
  with assms(2) show ?thesis
    by (simp add: processFrame_single handleSingle_rotate[of _ _ _ g] not_cooldown)
qed

lemma rotateStep_still_waiting:
  assumes "lastHandPosition e = Some p" "hypot (x tip - x p) (y tip - y p) \<le> 0.002"
      and "lastMoveTime e = Some tm" "now - tm \<le> 300"
  shows "\<exists>e' evs. rotateStep now tip e = (e', evs)
           \<and> lastHandPosition e' = Some (p\<lparr> x := x tip, y := y tip \<rparr>)
           \<and> lastMoveTime e' = Some tm
           \<and> swipeCooldownTimestamp e' = swipeCooldownTimestamp e
           \<and> Reset \<notin> set evs"
  using assms by (simp add: rotateStep_def Let_def numeric_def)

lemma rotateStep_still_idle:
  assumes "lastHandPosition e = Some p" "hypot (x tip - x p) (y tip - y p) \<le> 0.002"
      and "lastMoveTime e = Some tm" "tm \<noteq> 0" "now - tm > 300" "state e \<noteq> Locked"
  shows "rotateStep now tip e =
           (e\<lparr> state := Idle, lastHandPosition := None, pinchStartDistance := None,
               gestureStartTime := None, lastMoveTime := None \<rparr>,
            if now - numeric (gestureStartTime e) > 50
            then [Rotate ((x tip - x p) * 2.5) ((y tip - y p) * 2.5)] else [])"
  using assms by (simp add: rotateStep_def Let_def numeric_def truthy_def resetState_def)

lemma run_still_waiting:
  "lastHandPosition e = Some p \<Longrightarrow> lastMoveTime e = Some tm \<Longrightarrow> swipeCooldownTimestamp e = None \<Longrightarrow>
   stillFrom (x p) (y p) (frames @ later) \<Longrightarrow> \<forall>(t, f)\<in>set frames. t - tm \<le> 300 \<Longrightarrow>
   \<exists>e' evs p'. run e frames = Inr (e', evs)
       \<and> lastHandPosition e' = Some p' \<and> lastMoveTime e' = Some tm
       \<and> swipeCooldownTimestamp e' = None \<and> Reset \<notin> set evs
       \<and> stillFrom (x p') (y p') later"
proof (induction frames arbitrary: e p)
  case Nil
  then show ?case by simp
next
  case (Cons fr frames)
  obtain t f where fr: "fr = (t, f)" by (cases fr)
  from Cons.prems(4) fr obtain tip where tip: "rotateTip f = Some tip"
    "hypot (x tip - x p) (y tip - y p) \<le> 0.002" "stillFrom (x tip) (y tip) (frames @ later)"
    by (auto split: option.splits)
  from Cons.prems(5) fr have w: "t - tm \<le> 300" "\<forall>(t, f)\<in>set frames. t - tm \<le> 300" by simp_all
  let ?e0 = "e\<lparr> palmStartTime := None \<rparr>"
  have step: "processFrame t f e = Inr (rotateStep t tip ?e0)"
    by (rule processFrame_rotate[OF tip(1) Cons.prems(3)])
  from rotateStep_still_waiting[of ?e0 p tip tm t] Cons.prems(1,2,3) tip(2) w(1)
  obtain e1 evs1 where r: "rotateStep t tip ?e0 = (e1, evs1)"
    "lastHandPosition e1 = Some (p\<lparr> x := x tip, y := y tip \<rparr>)" "lastMoveTime e1 = Some tm"
    "swipeCooldownTimestamp e1 = None" "Reset \<notin> set evs1"
    by auto
  from Cons.IH[OF r(2) r(3) r(4) _ w(2)] tip(3)
  obtain e' evs p' where rest: "run e1 frames = Inr (e', evs)"
    "lastHandPosition e' = Some p'" "lastMoveTime e' = Some tm"
    "swipeCooldownTimestamp e' = None" "Reset \<notin> set evs" "stillFrom (x p') (y p') later"
    by auto
  from step r rest fr show ?case by simp
qed

text \<open>
  The stillness check where it works. The engine has reached a Rotating state in which a
  last-move time \<open>tm\<close> is recorded. Fist or point frames follow, each with the index tip
  within 0.002 of where the frame before left it. The first of them that comes more than
  300 ms after \<open>tm\<close> sets the state to Idle and clears the anchor, the gesture-start
  time and the last-move time; no Reset event is involved.
\<close>

lemma auto_idle_after_movement:
  assumes reach: "run GestureEngine pre = Inr (e, evs0)"
      and rot: "state e = Rotating"
      and anchor: "lastHandPosition e = Some p"
      and moved: "lastMoveTime e = Some tm" and clock: "0 < tm"
      and still: "stillFrom (x p) (y p) (waiting @ [(t, f)])"
      and early: "\<forall>(t', f')\<in>set waiting. t' - tm \<le> 300"
      and late: "t - tm > 300"
  shows "\<exists>e' evs. run e (waiting @ [(t, f)]) = Inr (e', evs)
           \<and> state e' = Idle \<and> lastHandPosition e' = None \<and> gestureStartTime e' = None
           \<and> lastMoveTime e' = None \<and> Reset \<notin> set evs"
proof -
  have guard: "swipeCooldownTimestamp e = None"
    using run_swipeCooldownTimestamp[OF reach] by simp
  from run_still_waiting[OF anchor moved guard still early]
  obtain e1 evs1 p1 where w: "run e waiting = Inr (e1, evs1)"
    "lastHandPosition e1 = Some p1" "lastMoveTime e1 = Some tm"
    "swipeCooldownTimestamp e1 = None" "Reset \<notin> set evs1" "stillFrom (x p1) (y p1) [(t, f)]"
    by blast
  from rot have "state e \<noteq> Locked" by simp
  from run_not_locked[OF this w(1)] have nl: "state e1 \<noteq> Locked" by simp
  from w(6) obtain tip where tip: "rotateTip f = Some tip"
    "hypot (x tip - x p1) (y tip - y p1) \<le> 0.002"
    by (auto split: option.splits)
  let ?e0 = "e1\<lparr> palmStartTime := None \<rparr>"
  have step: "processFrame t f e1 = Inr (rotateStep t tip ?e0)"
    by (rule processFrame_rotate[OF tip(1) w(4)])
  have fire: "rotateStep t tip ?e0 =
           (?e0\<lparr> state := Idle, lastHandPosition := None, pinchStartDistance := None,
               gestureStartTime := None, lastMoveTime := None \<rparr>,
            if t - numeric (gestureStartTime ?e0) > 50
            then [Rotate ((x tip - x p1) * 2.5) ((y tip - y p1) * 2.5)] else [])"
    using w(2,3) tip(2) clock late nl
    by (intro rotateStep_still_idle[of ?e0 p1 tip tm t]) simp_all
  show ?thesis
    using w(1,5) step fire by (simp add: run_append)
qed

lemma auto_idle_after_movement_example:
  "\<exists>e' evs. run rotatingEngine ([(1200, oneHand (fistHand 0.6 0.5))] @ [(1401, oneHand (fistHand 0.6 0.5))])
                = Inr (e', evs)
           \<and> state e' = Idle \<and> lastHandPosition e' = None \<and> gestureStartTime e' = None
           \<and> lastMoveTime e' = None \<and> Reset \<notin> set evs"
  by (rule auto_idle_after_movement[OF sample_engines_reached(2), of
        "\<lparr> x = 0.6, y = 0.6, startX = 0.5, startY = 0.6 \<rparr>" 1100])
     (simp_all add: rotatingEngine_def rotateTip_fist)

text \<open>
  After such an auto-idle the last-move time is unset again: the same motionless fist is
  latched at 1500 ms, is Rotating at 1600 ms and stays so.
\<close>

lemma rotating_again_after_auto_idle:
  "run GestureEngine [(1000, oneHand (fistHand 0.5 0.5)), (1100, oneHand (fistHand 0.6 0.5)),
      (1200, oneHand (fistHand 0.6 0.5)), (1401, oneHand (fistHand 0.6 0.5)),
      (1500, oneHand (fistHand 0.6 0.5)), (1600, oneHand (fistHand 0.6 0.5)),
      (2000, oneHand (fistHand 0.6 0.5))]
     = Inr (\<lparr> state = Rotating, gestureStartTime = Some 1500,
              lastHandPosition = Some \<lparr> x = 0.6, y = 0.6, startX = 0.6, startY = 0.6 \<rparr>,
              pinchStartDistance = None, swipeCooldownTimestamp = None, palmStartTime = None,
              switchCooldown = None, lastMoveTime = None \<rparr>,
            [Rotate 0.25 0, Rotate 0 0, Rotate 0 0, Rotate 0 0, Rotate 0 0])"
  by (simp add: eval_defs GestureEngine_def)

text \<open>
  C9 fails on the code. The claim: from a Rotating state, index-tip movement at or below
  0.002 per frame for more than 300 ms sets the state to Idle and clears the anchors. The
  check times the stillness from \<^verbatim>\<open>lastMoveTime\<close>, which the latch of the anchor does
  not set. Here a fist that never moves is latched at 1000 ms, is Rotating at 1100 ms,
  and is still Rotating, anchor in place, at 1500 ms, after 400 ms without movement.
\<close>

theorem stillness_never_idles:
  "run GestureEngine [(1000, oneHand (fistHand 0.5 0.5)), (1100, oneHand (fistHand 0.5 0.5))]
     = Inr (\<lparr> state = Rotating, gestureStartTime = Some 1000,
              lastHandPosition = Some \<lparr> x = 0.5, y = 0.6, startX = 0.5, startY = 0.6 \<rparr>,
              pinchStartDistance = None, swipeCooldownTimestamp = None, palmStartTime = None,
              switchCooldown = None, lastMoveTime = None \<rparr>,
            [Rotate 0 0])
   \<and> run GestureEngine [(1000, oneHand (fistHand 0.5 0.5)), (1100, oneHand (fistHand 0.5 0.5)),
        (1500, oneHand (fistHand 0.5 0.5))]
     = Inr (\<lparr> state = Rotating, gestureStartTime = Some 1000,
              lastHandPosition = Some \<lparr> x = 0.5, y = 0.6, startX = 0.5, startY = 0.6 \<rparr>,
              pinchStartDistance = None, swipeCooldownTimestamp = None, palmStartTime = None,
              switchCooldown = None, lastMoveTime = None \<rparr>,
            [Rotate 0 0, Rotate 0 0])"
  by (simp add: eval_defs GestureEngine_def)

section \<open>Landmark smoothing\<close>

lemma mapE_ok: "\<forall>a\<in>set as. f a = Inr (g a) \<Longrightarrow> mapE f as = Inr (map g as)"
  by (induction as) simp_all

lemma smoothPoint_mean:
  assumes "history \<noteq> []" "\<forall>frame\<in>set history. i < length frame"
  shows "smoothPoint history i = Inr (meanPoint history i)"
proof -
  have "mapE (\<lambda>frame. lm_at frame i) history = Inr (map (\<lambda>frame. frame ! i) history)"
    using assms(2) by (intro mapE_ok) (simp add: lm_at_def)
  with assms(1) show ?thesis
    by (simp add: smoothPoint_def meanPoint_def comp_def)
qed

lemma kept_lastN:
  assumes "length hist \<le> w"
  shows "(if length (hist @ [l]) > w then tl (hist @ [l]) else hist @ [l]) = lastN w (hist @ [l])"
proof (cases "length hist = w")
  case True
  then show ?thesis by (cases hist) (auto simp: lastN_def)
next
  case False
  with assms show ?thesis by (simp add: lastN_def)
qed

lemma smoothLandmarks_mean:
  assumes len: "length (slotBuffer t k) \<le> smoothingWindow t" and w: "0 < smoothingWindow t"
      and shape: "\<forall>frame\<in>set (slotBuffer t k). length frame = length landmarks"
  shows "smoothLandmarks landmarks k t =
           (t\<lparr> landmarkHistory := (landmarkHistory t)
                  (k := Some (lastN (smoothingWindow t) (slotBuffer t k @ [landmarks]))) \<rparr>,
            Inr (meanHand (length landmarks)
                   (lastN (smoothingWindow t) (slotBuffer t k @ [landmarks]))))"
proof -
  let ?kept = "lastN (smoothingWindow t) (slotBuffer t k @ [landmarks])"
  have ne: "?kept \<noteq> []" using w by (simp add: lastN_def)
  have "set ?kept \<subseteq> set (slotBuffer t k @ [landmarks])"
    unfolding lastN_def by (rule set_drop_subset)
  with shape have sh: "\<forall>frame\<in>set ?kept. length frame = length landmarks" by auto
  have "mapE (smoothPoint ?kept) [0 ..< length landmarks]
          = Inr (map (meanPoint ?kept) [0 ..< length landmarks])"
    using sh ne by (intro mapE_ok) (simp add: smoothPoint_mean)
  then have m: "mapE (smoothPoint ?kept) [0 ..< length landmarks]
          = Inr (meanHand (length landmarks) ?kept)"
    by (simp add: meanHand_def)
  have k: "(if length (slotBuffer t k @ [landmarks]) > smoothingWindow t
            then tl (slotBuffer t k @ [landmarks]) else slotBuffer t k @ [landmarks]) = ?kept"
    by (rule kept_lastN[OF len])
  show ?thesis
    unfolding smoothLandmarks_def Let_def slotBuffer_def[symmetric] k m ..
qed

lemma smoothLandmarks_other_slot:
  "j \<noteq> k \<Longrightarrow> landmarkHistory (fst (smoothLandmarks landmarks k t)) j = landmarkHistory t j"
  by (simp add: smoothLandmarks_def Let_def)

lemma smoothEach_later_slots:
  "handIndex + length hands \<le> j \<Longrightarrow>
   landmarkHistory (fst (smoothEach hands handIndex t)) j = landmarkHistory t j"
proof (induction hands arbitrary: handIndex t)
  case Nil
  then show ?case by simp
next
  case (Cons h hands)
  obtain t1 out where s: "smoothLandmarks h handIndex t = (t1, out)" by (cases "smoothLandmarks h handIndex t")
  from Cons.prems have ne: "j \<noteq> handIndex" and rest: "Suc handIndex + length hands \<le> j" by simp_all
  from smoothLandmarks_other_slot[OF ne, of h t] s
  have 1: "landmarkHistory t1 j = landmarkHistory t j" by simp
  from Cons.IH[OF rest, of t1] 1 s show ?case
    by (cases out; cases "smoothEach hands (Suc handIndex) t1")
       (auto split: sum.splits)
qed

lemma handleResults_vacant_slot:
  assumes "length (case multiHandLandmarks res of None \<Rightarrow> [] | Some hs \<Rightarrow> hs) \<le> k"
  shows "slotBuffer (fst (handleResults res t)) k = slotBuffer t k"
proof (cases "onResultsCallback t")
  case False
  then show ?thesis by (simp add: handleResults_def)
next
  case True
  let ?hands = "case multiHandLandmarks res of None \<Rightarrow> [] | Some hs \<Rightarrow> hs"
  have "fst (handleResults res t) = fst (smoothEach ?hands 0 t)"
    using True by (simp add: handleResults_def split: prod.splits sum.splits)
  with smoothEach_later_slots[of 0 ?hands k t] assms show ?thesis
    by (simp add: slotBuffer_def)
qed

lemma smoothLandmarks_window:
  "smoothingWindow (fst (smoothLandmarks landmarks k t)) = smoothingWindow t"
  by (simp add: smoothLandmarks_def Let_def)

lemma smoothEach_window:
  "smoothingWindow (fst (smoothEach hands handIndex t)) = smoothingWindow t"
proof (induction hands arbitrary: handIndex t)
  case Nil
  then show ?case by simp
next
  case (Cons h hands)
  obtain t1 out where s: "smoothLandmarks h handIndex t = (t1, out)"
    by (cases "smoothLandmarks h handIndex t")
  from smoothLandmarks_window[of h handIndex t] s have 1: "smoothingWindow t1 = smoothingWindow t"
    by simp
  from Cons.IH[of "Suc handIndex" t1] 1 s show ?case
    by (cases out; cases "smoothEach hands (Suc handIndex) t1") (auto split: sum.splits)
qed

lemma handleResults_window:
  "smoothingWindow (fst (handleResults res t)) = smoothingWindow t"
proof (cases "onResultsCallback t")
  case False
  then show ?thesis by (simp add: handleResults_def)
next
  case True
  let ?hands = "case multiHandLandmarks res of None \<Rightarrow> [] | Some hs \<Rightarrow> hs"
  have "fst (handleResults res t) = fst (smoothEach ?hands 0 t)"
    using True by (simp add: handleResults_def split: prod.splits sum.splits)
  with smoothEach_window[of ?hands 0 t] show ?thesis by simp
qed

lemma meanHand_single: "meanHand (length l) [l] = l"
  by (rule nth_equalityI) (simp_all add: meanHand_def meanPoint_def)

lemma meanHand_palms:
  "meanHand 21 [palmHand a b, palmHand c d] = palmHand ((a + c) / 2) ((b + d) / 2)"
  by (rule nth_equalityI) (simp_all add: meanHand_def meanPoint_def palm_nth pt_def)

lemma tracked_one:
  assumes "onResultsCallback t" "smoothingWindow t = 3" "length (slotBuffer t 0) \<le> 3"
    "\<forall>frame\<in>set (slotBuffer t 0). length frame = length h"
  shows "handleResults (oneHand h) t =
     (t\<lparr> landmarkHistory := (landmarkHistory t)(0 := Some (lastN 3 (slotBuffer t 0 @ [h]))) \<rparr>,
      Inr (Some (oneHand (meanHand (length h) (lastN 3 (slotBuffer t 0 @ [h]))))))"
  using assms smoothLandmarks_mean[of t 0 h]
  by (simp add: handleResults_def oneHand_def)

lemma tracked_none: "onResultsCallback t \<Longrightarrow> handleResults noHands t = (t, Inr (Some noHands))"
  by (simp add: handleResults_def noHands_def)

lemma sampleTracker_reached:
  "fst (track (init HandTracker) [oneHand (palmHand 0.2 0.2)]) = sampleTracker"
proof -
  let ?t0 = "init HandTracker"
  have t0: "onResultsCallback ?t0" "smoothingWindow ?t0 = 3" "slotBuffer ?t0 0 = []"
    by (simp_all add: init_def HandTracker_def slotBuffer_def)
  have "fst (handleResults (oneHand (palmHand 0.2 0.2)) ?t0) = sampleTracker"
    using tracked_one[of ?t0 "palmHand 0.2 0.2"] t0
    by (auto simp: lastN_def sampleTracker_def init_def HandTracker_def)
  then show ?thesis by (simp add: case_prod_beta)
qed

lemma smoothLandmarks_bound:
  assumes "\<forall>j. length (slotBuffer t j) \<le> smoothingWindow t"
  shows "\<forall>j. length (slotBuffer (fst (smoothLandmarks l k t)) j) \<le> smoothingWindow t"
  using assms by (auto simp: smoothLandmarks_def Let_def slotBuffer_def split: option.splits)

lemma smoothEach_bound:
  "\<forall>j. length (slotBuffer t j) \<le> smoothingWindow t \<Longrightarrow>
   \<forall>j. length (slotBuffer (fst (smoothEach hands k t)) j) \<le> smoothingWindow t"
proof (induction hands arbitrary: k t)
  case Nil
  then show ?case by simp
next
  case (Cons h hands)
  obtain t1 out where s: "smoothLandmarks h k t = (t1, out)" by (cases "smoothLandmarks h k t")
  from smoothLandmarks_bound[OF Cons.prems, of h k] smoothLandmarks_window[of h k t] s
  have 1: "\<forall>j. length (slotBuffer t1 j) \<le> smoothingWindow t1" "smoothingWindow t1 = smoothingWindow t"
    by simp_all
  from Cons.IH[OF 1(1), of "Suc k"] 1 s show ?case
    by (cases out; cases "smoothEach hands (Suc k) t1") (auto split: sum.splits)
qed

lemma handleResults_bound:
  assumes "\<forall>j. length (slotBuffer t j) \<le> smoothingWindow t"
  shows "\<forall>j. length (slotBuffer (fst (handleResults res t)) j) \<le> smoothingWindow t"
proof (cases "onResultsCallback t")
  case False
  with assms show ?thesis by (simp add: handleResults_def)
next
  case True
  let ?hands = "case multiHandLandmarks res of None \<Rightarrow> [] | Some hs \<Rightarrow> hs"
  have "fst (handleResults res t) = fst (smoothEach ?hands 0 t)"
    using True by (simp add: handleResults_def split: prod.splits sum.splits)
  with smoothEach_bound[OF assms, of ?hands 0] show ?thesis by simp
qed

lemma track_bound:
  "\<forall>j. length (slotBuffer t j) \<le> smoothingWindow t \<Longrightarrow>
   smoothingWindow (fst (track t history)) = smoothingWindow t
   \<and> (\<forall>j. length (slotBuffer (fst (track t history)) j) \<le> smoothingWindow t)"
proof (induction history arbitrary: t)
  case Nil
  then show ?case by simp
next
  case (Cons res history)
  let ?t1 = "fst (handleResults res t)"
  have 1: "\<forall>j. length (slotBuffer ?t1 j) \<le> smoothingWindow ?t1"
    using handleResults_bound[OF Cons.prems, of res] handleResults_window[of res t] by simp
  from Cons.IH[OF 1] handleResults_window[of res t] show ?case
    by (simp add: case_prod_beta)
qed

lemma tracked_bounds:
  "smoothingWindow (fst (track (init HandTracker) history)) = 3
   \<and> (\<forall>j. length (slotBuffer (fst (track (init HandTracker) history)) j) \<le> 3)"
  using track_bound[of "init HandTracker" history]
  by (simp add: init_def HandTracker_def slotBuffer_def)

text \<open>
  C5 (as amended). In a state the tracker reaches, a frame on which slot \<open>k\<close> is vacant
  leaves the slot's buffer as it was. When the hand re-appears, the smoothed output for the
  slot is the point-wise mean over the last three sets of the old buffer followed by the
  new raw set (landmark sets of one size, as the detector delivers them); when nothing
  was buffered for the slot, it is the new raw set alone.
\<close>

theorem vacancy_keeps_buffer:
  assumes reach: "t = fst (track (init HandTracker) history)"
      and vacant: "length (case multiHandLandmarks res of None \<Rightarrow> [] | Some hs \<Rightarrow> hs) \<le> k"
      and shape: "\<forall>frame\<in>set (slotBuffer t k). length frame = length landmarks"
  shows "slotBuffer (fst (handleResults res t)) k = slotBuffer t k
       \<and> snd (smoothLandmarks landmarks k (fst (handleResults res t)))
           = Inr (meanHand (length landmarks) (lastN 3 (slotBuffer t k @ [landmarks])))
       \<and> (slotBuffer t k = [] \<longrightarrow>
            snd (smoothLandmarks landmarks k (fst (handleResults res t))) = Inr landmarks)"
proof -
  let ?t1 = "fst (handleResults res t)"
  from tracked_bounds[of history] reach
  have w: "smoothingWindow t = 3" and len: "length (slotBuffer t k) \<le> 3" by simp_all
  have same: "slotBuffer ?t1 k = slotBuffer t k"
    by (rule handleResults_vacant_slot[OF vacant])
  have win: "smoothingWindow ?t1 = smoothingWindow t"
    by (rule handleResults_window)
  from smoothLandmarks_mean[of ?t1 k landmarks] same win len w shape
  have out: "snd (smoothLandmarks landmarks k ?t1)
           = Inr (meanHand (length landmarks) (lastN 3 (slotBuffer t k @ [landmarks])))"
    by simp
  have "snd (smoothLandmarks landmarks k ?t1) = Inr landmarks" if "slotBuffer t k = []"
    using out that meanHand_single[of landmarks] by (simp add: lastN_def)
  with same out show ?thesis by blast
qed

theorem vacancy_keeps_buffer_witness:
  "slotBuffer (fst (handleResults noHands sampleTracker)) 0 = [palmHand 0.2 0.2]
   \<and> snd (smoothLandmarks (palmHand 0.4 0.4) 0 (fst (handleResults noHands sampleTracker)))
       = Inr (palmHand 0.3 0.3)
   \<and> slotBuffer (init HandTracker) 0 = []
   \<and> snd (smoothLandmarks (palmHand 0.4 0.4) 0 (fst (handleResults noHands (init HandTracker))))
       = Inr (palmHand 0.4 0.4)"
proof -
  have b: "slotBuffer sampleTracker 0 = [palmHand 0.2 0.2]"
    by (simp add: slotBuffer_def sampleTracker_def)
  have c: "slotBuffer (init HandTracker) 0 = []"
    by (simp add: slotBuffer_def init_def HandTracker_def)
  have start: "init HandTracker = fst (track (init HandTracker) [])" by simp
  from vacancy_keeps_buffer[OF sampleTracker_reached[symmetric], of noHands 0 "palmHand 0.4 0.4"] b
    meanHand_palms[of "0.2" "0.2" "0.4" "0.4"]
  have 1: "slotBuffer (fst (handleResults noHands sampleTracker)) 0 = [palmHand 0.2 0.2]
   \<and> snd (smoothLandmarks (palmHand 0.4 0.4) 0 (fst (handleResults noHands sampleTracker)))
       = Inr (palmHand 0.3 0.3)"
    by (simp add: noHands_def lastN_def)
  from vacancy_keeps_buffer[OF start, of noHands 0 "palmHand 0.4 0.4",
      THEN conjunct2, THEN conjunct2] c
  have 2: "snd (smoothLandmarks (palmHand 0.4 0.4) 0 (fst (handleResults noHands (init HandTracker))))
       = Inr (palmHand 0.4 0.4)"
    by (simp add: noHands_def)
  from 1 2 c show ?thesis by simp
qed

text \<open>
  C5 as stated fails: a hand at 0.2, a frame without hands, a hand at 0.4. The third
  output lies at 0.3, the mean of both hands, not at 0.4.
\<close>

theorem vacancy_counterexample:
  "snd (track (init HandTracker) [oneHand (palmHand 0.2 0.2), noHands, oneHand (palmHand 0.4 0.4)])
     = [Inr (Some (oneHand (palmHand 0.2 0.2))), Inr (Some noHands),
        Inr (Some (oneHand (palmHand 0.3 0.3)))]"
proof -
  let ?A = "palmHand 0.2 0.2" and ?B = "palmHand 0.4 0.4"
  let ?t0 = "init HandTracker"
  let ?t1 = "?t0\<lparr> landmarkHistory := (landmarkHistory ?t0)(0 := Some [?A]) \<rparr>"
  have t0: "onResultsCallback ?t0" "smoothingWindow ?t0 = 3" "slotBuffer ?t0 0 = []"
    by (simp_all add: init_def HandTracker_def slotBuffer_def)
  have 1: "handleResults (oneHand ?A) ?t0 = (?t1, Inr (Some (oneHand ?A)))"
    using tracked_one[of ?t0 ?A] t0 meanHand_single[of ?A] by (simp add: lastN_def)
  have t1: "onResultsCallback ?t1" "smoothingWindow ?t1 = 3" "slotBuffer ?t1 0 = [?A]"
    using t0 by (simp_all add: slotBuffer_def)
  have 2: "handleResults noHands ?t1 = (?t1, Inr (Some noHands))"
    using t1 by (intro tracked_none)
  have 3: "snd (handleResults (oneHand ?B) ?t1) = Inr (Some (oneHand (palmHand 0.3 0.3)))"
    using tracked_one[of ?t1 ?B] t1 meanHand_palms[of "0.2" "0.2" "0.4" "0.4"] by (simp add: lastN_def)
  show ?thesis
    using 1 2 3 by (simp add: case_prod_beta)
qed

end
